theory Spec2Isabelle
  imports Complex_Main
begin

section \<open>Python strings and lists\<close>

text \<open>
  Python 2 byte strings are modelled as \<^typ>\<open>string\<close>. The helpers below stand for the
  built-in string and list operations the micp sources call.
\<close>

definition startswith :: "string \<Rightarrow> string \<Rightarrow> bool" where
  "startswith s p = (take (length p) s = p)"

fun py_join :: "string \<Rightarrow> string list \<Rightarrow> string" where
  "py_join sep [] = []"
| "py_join sep [x] = x"
| "py_join sep (x # y # ys) = x @ sep @ py_join sep (y # ys)"

definition str_whitespace :: "char list" where
  "str_whitespace = [CHR '' '', CHR 0x09, CHR 0x0A, CHR 0x0B, CHR 0x0C, CHR 0x0D]"

text \<open>\<open>s.split()\<close> without arguments: the maximal runs of non-whitespace characters.\<close>

fun split_ws :: "string \<Rightarrow> string \<Rightarrow> string list" where
  "split_ws cur [] = (if cur = [] then [] else [cur])"
| "split_ws cur (c # cs) =
     (if c \<in> set str_whitespace
      then (if cur = [] then split_ws [] cs else cur # split_ws [] cs)
      else split_ws (cur @ [c]) cs)"

definition py_split :: "string \<Rightarrow> string list" where
  "py_split s = split_ws [] s"



definition ascii_digits :: "char list" where
  "ascii_digits = ''0123456789''"

definition ascii_letters :: "char list" where
  "ascii_letters = ''abcdefghijklmnopqrstuvwxyzABCDEFGHIJKLMNOPQRSTUVWXYZ''"

text \<open>\<open>str.isdigit()\<close> on a byte string: non-empty and every character a decimal digit.\<close>

definition isdigit :: "string \<Rightarrow> bool" where
  "isdigit s = (s \<noteq> [] \<and> (\<forall>c \<in> set s. c \<in> set ascii_digits))"

text \<open>
  A pattern ending in \<open>$\<close> matches at the end of the string and also just before a final
  newline; \<open>dollar_variants\<close> lists the strings whose end such a pattern accepts.
\<close>

definition dollar_variants :: "string \<Rightarrow> string list" where
  "dollar_variants s =
     (if s \<noteq> [] \<and> last s = CHR 0x0A then [s, butlast s] else [s])"

section \<open>Exceptions\<close>

datatype unknown_param =
    UnableToParse string
  | UnknownKernelParameter string
  | UnknownKernelFlag char
  | MalformedToken string nat

datatype error =
    MicpParamsHelpError
  | UnknownParamError unknown_param
  | InvalidParamTypeError string string
  | NameError
  | AmbiguousFlagNameError "string list"
  | UnknownCategoryNameError string
  | RuntimeError
  | ValidatorKeyRuntimeError string
  | ValueError
  | UnknownValidatorValueError string
  | NumDropValueError
  | TypeError
  | KeyError string
  | IndexError
  | ZeroDivisionError
  | NotImplementedError
  | PerfRegressionError
  | MissingDependenciesError string
  | CalledProcessError int string
  | NoExecutionPermission string string
  | NoExecutableError
  | SelfCheckError
  | OSError
  | IOError
  | GetOffloadIndexError
  | UnknownParameterTypeNameError string
  | SubprocessCalledProcessError int

section \<open>Parameter type validators (common.py, params.py)\<close>

text \<open>\<open>micp.common.unsigned_int\<close>: \<open>param.isdigit()\<close>, else ValueError.\<close>

definition unsigned_int :: "string \<Rightarrow> bool" where
  "unsigned_int param = isdigit param"

text \<open>\<open>micp.common.signed_int\<close>: \<open>re.match('^-?\d+$', param)\<close>, else ValueError.\<close>

definition signed_int_body :: "string \<Rightarrow> bool" where
  "signed_int_body s = (case s of CHR ''-'' # ds \<Rightarrow> isdigit ds | _ \<Rightarrow> isdigit s)"

definition signed_int :: "string \<Rightarrow> bool" where
  "signed_int param = (\<exists>s \<in> set (dollar_variants param). signed_int_body s)"

text \<open>
  \<open>micp.common.custom_type(param, 'NN|NT|TN|TT|0|1|2|3')\<close>: the pattern built is
  \<open>^NN|NT|TN|TT|0|1|2|3$\<close>, and alternation binds weakest, so \<open>re.match\<close> accepts a
  string that begins with one of the first seven alternatives, or is \<open>3\<close> up to a final
  newline.
\<close>

definition valid_mmodes :: "string \<Rightarrow> bool" where
  "valid_mmodes param =
     ((\<exists>p \<in> set [''NN'', ''NT'', ''TN'', ''TT'', ''0'', ''1'', ''2'']. startswith param p)
      \<or> param = ''3'' \<or> param = ''3'' @ [CHR 0x0A])"

text \<open>\<open>micp.common.no_args\<close>: accepts only the empty string.\<close>

definition no_args :: "string \<Rightarrow> bool" where
  "no_args param = (param = [])"

datatype type_check = UnsignedInt | SignedInt | MMode | NoArgs

fun run_check :: "type_check \<Rightarrow> string \<Rightarrow> bool" where
  "run_check UnsignedInt v = unsigned_int v"
| "run_check SignedInt v = signed_int v"
| "run_check MMode v = valid_mmodes v"
| "run_check NoArgs v = no_args v"

datatype validator =
    NoParamTypeValidator
  | GEMMParamTypeValidator
  | SHOCParamTypeValidator
  | LinpackParamTypeValidator
  | StreamParamTypeValidator
  | HPLinpackParamTypeValidator
  | HPCGParamTypeValidator

text \<open>The validator's class name and its \<open>_validators\<close> dictionary.\<close>

fun validator_name :: "validator \<Rightarrow> string" where
  "validator_name NoParamTypeValidator = ''''"
| "validator_name GEMMParamTypeValidator = ''XGEMM''"
| "validator_name SHOCParamTypeValidator = ''SHOC''"
| "validator_name LinpackParamTypeValidator = ''linpack''"
| "validator_name StreamParamTypeValidator = ''STREAM''"
| "validator_name HPLinpackParamTypeValidator = ''hplinpack''"
| "validator_name HPCGParamTypeValidator = ''hpcg''"

fun validators :: "validator \<Rightarrow> (string \<times> type_check) list" where
  "validators NoParamTypeValidator = []"
| "validators GEMMParamTypeValidator =
     [(''i_num_rep'', UnsignedInt), (''n_num_thread'', SignedInt), (''m_mode'', MMode),
      (''M_size'', UnsignedInt), (''N_size'', UnsignedInt), (''K_size'', UnsignedInt)]"
| "validators LinpackParamTypeValidator =
     [(''omp_num_threads'', SignedInt), (''matrix_size'', UnsignedInt),
      (''num_rep'', UnsignedInt), (''lead_dim'', UnsignedInt)]"
| "validators StreamParamTypeValidator = [(''omp_num_threads'', UnsignedInt)]"
| "validators SHOCParamTypeValidator =
     [(''target'', UnsignedInt), (''passes'', UnsignedInt), (''nopinned'', NoArgs)]"
| "validators HPLinpackParamTypeValidator =
     [(''problem_size'', UnsignedInt), (''block_size'', UnsignedInt),
      (''hpl_numthreads'', UnsignedInt)]"
| "validators HPCGParamTypeValidator =
     [(''problem_size'', UnsignedInt), (''time'', UnsignedInt),
      (''omp_num_threads'', UnsignedInt)]"

text \<open>
  \<open>validate_param\<close>: \<open>NoParamTypeValidator\<close> overrides it to return the value; the base
  class raises RuntimeError for a name without an entry, InvalidParamTypeError when the
  check raises ValueError, and returns the value otherwise.
\<close>

definition validate_param :: "validator \<Rightarrow> string \<Rightarrow> string \<Rightarrow> error + string" where
  "validate_param v param val =
     (if v = NoParamTypeValidator then Inr val
      else (case map_of (validators v) param of
              None \<Rightarrow> Inl (ValidatorKeyRuntimeError param)
            | Some chk \<Rightarrow>
                if run_check chk val then Inr val
                else Inl (InvalidParamTypeError (validator_name v) param)))"

definition ParamTypeValidatorFactory :: "string \<Rightarrow> error + validator" where
  "ParamTypeValidatorFactory name =
     (if name = ''none'' then Inr NoParamTypeValidator
      else if name = ''gemm'' then Inr GEMMParamTypeValidator
      else if name = ''shoc'' then Inr SHOCParamTypeValidator
      else if name = ''linpack'' then Inr LinpackParamTypeValidator
      else if name = ''stream'' then Inr StreamParamTypeValidator
      else if name = ''hplinpack'' then Inr HPLinpackParamTypeValidator
      else if name = ''hpcg'' then Inr HPCGParamTypeValidator
      else Inl (UnknownValidatorValueError name))"

section \<open>shlex.split (Python 2.7 standard library)\<close>

text \<open>
  \<open>shlex.split(s)\<close> runs the POSIX-mode lexer with \<open>whitespace_split\<close> set and no
  comment characters. Its \<open>read_token\<close> loop is a state machine over the characters:
  state \<open>' '\<close> (between tokens), state \<open>'a'\<close> (inside a word), a quote character
  (inside quotes) and the escape character (after a backslash, remembering the state to
  return to). The flag says whether the current token has seen a quote, in which case an
  empty token is still emitted.
\<close>

datatype lex_state = LexStart | LexWord | LexQuote char | LexEscape "char option"

definition shlex_whitespace :: "char list" where
  "shlex_whitespace = [CHR '' '', CHR 0x09, CHR 0x0D, CHR 0x0A]"

definition shlex_quotes :: "char list" where
  "shlex_quotes = [CHR 0x27, CHR 0x22]"

definition shlex_escape :: char where
  "shlex_escape = CHR 0x5C"

definition shlex_escapedquotes :: "char list" where
  "shlex_escapedquotes = [CHR 0x22]"

fun read_tokens :: "lex_state \<Rightarrow> bool \<Rightarrow> string \<Rightarrow> string \<Rightarrow> error + string list" where
  "read_tokens LexStart quoted tok [] = Inr []"
| "read_tokens LexStart quoted tok (c # cs) =
     (if c \<in> set shlex_whitespace then read_tokens LexStart False [] cs
      else if c = shlex_escape then read_tokens (LexEscape None) False [] cs
      else if c \<in> set shlex_quotes then read_tokens (LexQuote c) False [] cs
      else read_tokens LexWord False [c] cs)"
| "read_tokens (LexQuote q) quoted tok [] = Inl ValueError"
| "read_tokens (LexQuote q) quoted tok (c # cs) =
     (if c = q then read_tokens LexWord True tok cs
      else if c = shlex_escape \<and> q \<in> set shlex_escapedquotes
        then read_tokens (LexEscape (Some q)) True tok cs
      else read_tokens (LexQuote q) True (tok @ [c]) cs)"
| "read_tokens (LexEscape back) quoted tok [] = Inl ValueError"
| "read_tokens (LexEscape back) quoted tok (c # cs) =
     (case back of
        None \<Rightarrow> read_tokens LexWord quoted (tok @ [c]) cs
      | Some q \<Rightarrow>
          read_tokens (LexQuote q) quoted
            (if c \<noteq> shlex_escape \<and> c \<noteq> q then tok @ [shlex_escape, c] else tok @ [c]) cs)"
| "read_tokens LexWord quoted tok [] = (if tok \<noteq> [] \<or> quoted then Inr [tok] else Inr [])"
| "read_tokens LexWord quoted tok (c # cs) =
     (if c \<in> set shlex_whitespace then
        (if tok \<noteq> [] \<or> quoted
         then (case read_tokens LexStart False [] cs of
                 Inl e \<Rightarrow> Inl e | Inr ts \<Rightarrow> Inr (tok # ts))
         else read_tokens LexStart False [] cs)
      else if c \<in> set shlex_quotes then read_tokens (LexQuote c) quoted tok cs
      else if c = shlex_escape then read_tokens (LexEscape None) quoted tok cs
      else read_tokens LexWord quoted (tok @ [c]) cs)"

definition shlex_split :: "string \<Rightarrow> error + string list" where
  "shlex_split s = read_tokens LexStart False [] s"

section \<open>Params (params.py)\<close>

text \<open>
  A \<open>Params\<close> object holds \<open>_paramNames\<close>, the dictionary \<open>_params\<close> from each name to
  its value or \<open>None\<close>, \<open>_defaults\<close> and \<open>_paramQuiet\<close>. The keys of \<open>_params\<close> are
  exactly the entries of \<open>_paramNames\<close> (the constructor creates them and every later
  write is to a listed name), so the dictionary is a function read at those names only;
  \<open>get_named\<close> and \<open>set_named\<close> decide the missing-key case on \<open>_paramNames\<close>.
  Values are byte strings; \<open>None\<close> is Python's \<open>None\<close>.
\<close>

record params =
  paramNames :: "string list"
  pvalues :: "string \<Rightarrow> string option"
  defaults :: "string \<rightharpoonup> string option"
  paramQuiet :: "string list"

datatype raw_params = Str string | Toks "string list"

text \<open>\<open>re.compile('^-[a-zA-Z]$').match\<close>.\<close>

definition is_short_option :: "string \<Rightarrow> bool" where
  "is_short_option t =
     (\<exists>s \<in> set (dollar_variants t).
        case s of [d, c] \<Rightarrow> d = CHR ''-'' \<and> c \<in> set ascii_letters | _ \<Rightarrow> False)"

text \<open>The positional branch: \<open>for pn, pp in zip(self._paramNames, params)\<close>.\<close>

fun assign_positional ::
  "validator \<Rightarrow> (string \<times> string) list \<Rightarrow> (string \<Rightarrow> string option)
     \<Rightarrow> error + (string \<Rightarrow> string option)" where
  "assign_positional v [] m = Inr m"
| "assign_positional v ((pn, pp) # rest) m =
     (case validate_param v pn pp of
        Inl e \<Rightarrow> Inl e
      | Inr x \<Rightarrow> assign_positional v rest (m(pn := Some x)))"

text \<open>
  The \<open>while i < len(params)\<close> loop of the long and short form branch. The list argument
  is \<open>params[i:]\<close>; \<open>i\<close> is kept for the position reported with a malformed token.
\<close>

fun parse_options ::
  "validator \<Rightarrow> string list \<Rightarrow> nat \<Rightarrow> string list \<Rightarrow> (string \<Rightarrow> string option)
     \<Rightarrow> error + (string \<Rightarrow> string option)" where
  "parse_options v names i [] m = Inr m"
| "parse_options v names i (t # ts) m =
     (if startswith t ''--'' then
        (let thisName = drop 2 t in
         if thisName = ''help'' then Inl MicpParamsHelpError
         else if thisName \<notin> set names
           then Inl (UnknownParamError (UnknownKernelParameter thisName))
         else (case ts of
                 u # us \<Rightarrow>
                   if \<not> startswith u ''-'' then
                     (case validate_param v thisName u of
                        Inl e \<Rightarrow> Inl e
                      | Inr x \<Rightarrow> parse_options v names (i + 2) us (m(thisName := Some x)))
                   else
                     (case validate_param v thisName [] of
                        Inl e \<Rightarrow> Inl e
                      | Inr x \<Rightarrow> parse_options v names (i + 1) ts (m(thisName := Some x)))
               | [] \<Rightarrow>
                   (case validate_param v thisName [] of
                      Inl e \<Rightarrow> Inl e
                    | Inr x \<Rightarrow> parse_options v names (i + 1) ts (m(thisName := Some x)))))
      else if is_short_option t then
        (let thisFlag = t ! 1 in
         if thisFlag = CHR ''h'' then Inl MicpParamsHelpError
         else (case filter (\<lambda>pn. startswith pn [thisFlag]) names of
                 [] \<Rightarrow> Inl (UnknownParamError (UnknownKernelFlag thisFlag))
               | [thisName] \<Rightarrow>
                   (case ts of
                      u # us \<Rightarrow>
                        if \<not> is_short_option u then
                          (case validate_param v thisName u of
                             Inl e \<Rightarrow> Inl e
                           | Inr x \<Rightarrow>
                               parse_options v names (i + 2) us (m(thisName := Some x)))
                        else
                          (case validate_param v thisName [] of
                             Inl e \<Rightarrow> Inl e
                           | Inr x \<Rightarrow>
                               parse_options v names (i + 1) ts (m(thisName := Some x)))
                    | [] \<Rightarrow>
                        (case validate_param v thisName [] of
                           Inl e \<Rightarrow> Inl e
                         | Inr x \<Rightarrow>
                             parse_options v names (i + 1) ts (m(thisName := Some x))))
               | found \<Rightarrow> Inl (AmbiguousFlagNameError found)))
      else Inl (UnknownParamError (MalformedToken t i)))"

text \<open>The closing loop: a name still \<open>None\<close> takes its default, if it has one.\<close>

definition apply_defaults ::
  "string list \<Rightarrow> (string \<rightharpoonup> string option) \<Rightarrow> (string \<Rightarrow> string option)
     \<Rightarrow> (string \<Rightarrow> string option)" where
  "apply_defaults names dflt m =
     fold (\<lambda>pp m'. if m' pp = None
                    then m'(pp := (case dflt pp of None \<Rightarrow> None | Some d \<Rightarrow> d))
                    else m') names m"

definition Params_init ::
  "raw_params \<Rightarrow> string list \<Rightarrow> (string \<rightharpoonup> string option) \<Rightarrow> string list \<Rightarrow> string
     \<Rightarrow> error + params" where
  "Params_init raw names dflt quiet validatorName =
     (case (case raw of
              Str s \<Rightarrow> (case shlex_split s of
                           Inl e \<Rightarrow> Inl (UnknownParamError (UnableToParse s))
                         | Inr ts \<Rightarrow> Inr ts)
            | Toks ts \<Rightarrow> Inr ts) of
        Inl e \<Rightarrow> Inl e
      | Inr toks \<Rightarrow>
          (case ParamTypeValidatorFactory validatorName of
             Inl e \<Rightarrow> Inl e
           | Inr v \<Rightarrow>
               (case (if \<not> (\<exists>pp \<in> set toks. startswith pp ''--'' \<or> is_short_option pp)
                      then assign_positional v (zip names toks) (\<lambda>_. None)
                      else parse_options v names 0 toks (\<lambda>_. None)) of
                  Inl e \<Rightarrow> Inl e
                | Inr m \<Rightarrow>
                    Inr \<lparr>paramNames = names, pvalues = apply_defaults names dflt m,
                         defaults = dflt, paramQuiet = quiet\<rparr>)))"

text \<open>The serialization views.\<close>

definition pos_list :: "params \<Rightarrow> string list" where
  "pos_list p =
     map (\<lambda>pn. if pvalues p pn \<noteq> Some [] then the (pvalues p pn) else ''1'')
       (filter (\<lambda>pn. pvalues p pn \<noteq> None \<and> pn \<notin> set (paramQuiet p)) (paramNames p))"

definition pos_str :: "params \<Rightarrow> string" where
  "pos_str p = py_join '' '' (pos_list p)"

definition value_str :: "params \<Rightarrow> string" where
  "value_str p =
     py_join '' ''
       (map (\<lambda>pn. ''--'' @ pn @ '' '' @ the (pvalues p pn))
          (filter (\<lambda>pn. pvalues p pn \<noteq> None \<and> pn \<notin> set (paramQuiet p)) (paramNames p)))"

definition value_list :: "params \<Rightarrow> string list" where
  "value_list p = py_split (value_str p)"

text \<open>\<open>pn[0]\<close> raises IndexError on an empty parameter name.\<close>

definition flag_pieces :: "params \<Rightarrow> error + string list" where
  "flag_pieces p =
     (let shown = filter (\<lambda>pn. pvalues p pn \<noteq> None \<and> pn \<notin> set (paramQuiet p)) (paramNames p)
      in if [] \<in> set shown then Inl IndexError
         else Inr (map (\<lambda>pn. ''-'' @ [hd pn] @ '' '' @ the (pvalues p pn)) shown))"

definition flag_str :: "params \<Rightarrow> error + string" where
  "flag_str p = (case flag_pieces p of Inl e \<Rightarrow> Inl e | Inr ps \<Rightarrow> Inr (py_join '' '' ps))"

definition flag_list :: "params \<Rightarrow> error + string list" where
  "flag_list p = (case flag_str p of Inl e \<Rightarrow> Inl e | Inr s \<Rightarrow> Inr (py_split s))"

definition num_param :: "params \<Rightarrow> nat" where
  "num_param p = length (pos_list p)"

definition get_named :: "params \<Rightarrow> string \<Rightarrow> error + string option" where
  "get_named p name = (if name \<in> set (paramNames p) then Inr (pvalues p name) else Inl NameError)"


section \<open>Example inputs\<close>

definition c4_tokens :: "string list" where
  "c4_tokens = [''--a'', ''5'', ''--c'']"

definition c4_example :: params where
  "c4_example =
     \<lparr>paramNames = [''a'', ''b'', ''c''],
      pvalues = (\<lambda>_. None)(''a'' := Some ''5'', ''c'' := Some []),
      defaults = Map.empty, paramQuiet = []\<rparr>"

definition c10_tokens :: "string list" where
  "c10_tokens = [''--M_size'', ''-1'']"

text \<open>\<open>Params.__str__\<close>: every name with a value, quiet or not.\<close>

definition params_str :: "params \<Rightarrow> string" where
  "params_str p =
     py_join '' ''
       (map (\<lambda>pn. ''--'' @ pn @ '' '' @ the (pvalues p pn))
          (filter (\<lambda>pn. pvalues p pn \<noteq> None) (paramNames p)))"

section \<open>ParamsDrop (params.py)\<close>

text \<open>
  \<open>ParamsDrop\<close> keeps a deep copy of the object it decorates, so the two objects must be
  told apart: objects live in a store, addressed by references, and \<open>copy.deepcopy\<close>
  allocates the next free reference. A \<open>Params\<close> holds only strings, lists and
  dictionaries of strings, so its deep copy is the same record at a new reference.
\<close>

type_synonym ref = nat

record heap =
  objects :: "ref \<Rightarrow> params"
  next_ref :: ref


record params_drop =
  drop_params :: ref
  numDrop :: int


definition drop_str :: "heap \<Rightarrow> params_drop \<Rightarrow> string" where
  "drop_str h d = params_str (objects h (drop_params d))"

definition drop_pos_list :: "heap \<Rightarrow> params_drop \<Rightarrow> string list" where
  "drop_pos_list h d = pos_list (objects h (drop_params d))"

definition drop_pos_str :: "heap \<Rightarrow> params_drop \<Rightarrow> string" where
  "drop_pos_str h d = py_join '' '' (py_split (pos_str (objects h (drop_params d))))"

definition drop_value_list :: "heap \<Rightarrow> params_drop \<Rightarrow> string list" where
  "drop_value_list h d = value_list (objects h (drop_params d))"


definition drop_flag_list :: "heap \<Rightarrow> params_drop \<Rightarrow> error + string list" where
  "drop_flag_list h d = flag_list (objects h (drop_params d))"


definition drop_num_param :: "heap \<Rightarrow> params_drop \<Rightarrow> nat" where
  "drop_num_param h d = length (drop_pos_list h d)"



text \<open>
  The names one of the three command-line views (\<open>pos\<close>, \<open>value\<close>, \<open>flag\<close>) emits:
  the filter the three comprehensions share.
\<close>

definition emitted_names :: "params \<Rightarrow> string list" where
  "emitted_names p =
     filter (\<lambda>pn. pvalues p pn \<noteq> None \<and> pn \<notin> set (paramQuiet p)) (paramNames p)"



text \<open>
  Strings that \<open>shlex.split\<close> reads back as they are written: no whitespace, no quote
  and no backslash.
\<close>

definition shlex_plain :: "string \<Rightarrow> bool" where
  "shlex_plain w =
     (\<forall>c \<in> set w. c \<notin> set shlex_whitespace \<and> c \<notin> set shlex_quotes \<and> c \<noteq> shlex_escape)"

text \<open>The long-form tokens of one name and its value: an empty value leaves no token.\<close>

definition long_tokens :: "string \<times> string \<Rightarrow> string list" where
  "long_tokens nv = (''--'' @ fst nv) # (if snd nv = [] then [] else [snd nv])"

definition c7_names :: "string list" where
  "c7_names = [''n_num_thread'', ''M_size'']"

definition c7_defaults :: "string \<rightharpoonup> string option" where
  "c7_defaults = [''M_size'' \<mapsto> Some ''-1'']"

definition c7_first :: params where
  "c7_first =
     \<lparr>paramNames = c7_names,
      pvalues = (\<lambda>_. None)(''n_num_thread'' := Some ''4'', ''M_size'' := Some ''-1''),
      defaults = c7_defaults, paramQuiet = []\<rparr>"

definition c7_spaced :: params where
  "c7_spaced =
     \<lparr>paramNames = [''x''], pvalues = (\<lambda>_. None)(''x'' := Some ''a b''),
      defaults = Map.empty, paramQuiet = []\<rparr>"

definition c7_round :: params where
  "c7_round =
     \<lparr>paramNames = [''size'', ''verbose'', ''reps''],
      pvalues = (\<lambda>_. None)(''size'' := Some ''64'', ''verbose'' := Some [], ''reps'' := Some ''3''),
      defaults = [''reps'' \<mapsto> Some ''3''], paramQuiet = []\<rparr>"

section \<open>Kernel (kernel.py)\<close>

text \<open>
  The part of a kernel object that \<open>category_params\<close> reads: its name, the attribute
  \<open>_categoryParams\<close> (absent in a class that never sets it) and the method
  \<open>_update_params\<close>, which the base class leaves as the identity and \<open>hplinpack\<close>
  overrides.
\<close>

record kernel =
  kernel_name :: string
  categoryParams :: "(string \<rightharpoonup> string list) option"
  update_params :: "string list \<Rightarrow> string option \<Rightarrow> string list"

definition base_update_params :: "string list \<Rightarrow> string option \<Rightarrow> string list" where
  "base_update_params current_params offload = current_params"

definition category_params ::
  "'a kernel_scheme \<Rightarrow> string \<Rightarrow> string option \<Rightarrow> error + string list" where
  "category_params k category offload =
     (case categoryParams k of
        None \<Rightarrow> Inl NotImplementedError
      | Some cp \<Rightarrow>
          (case (case cp category of
                   Some ps \<Rightarrow> Inr ps
                 | None \<Rightarrow>
                     if category = ''optimal'' \<and> cp ''scaling'' \<noteq> None then
                       (case the (cp ''scaling'') of
                          [] \<Rightarrow> Inl IndexError
                        | sc \<Rightarrow> Inr [last sc])
                     else Inl (UnknownCategoryNameError category)) of
             Inl e \<Rightarrow> Inl e
           | Inr params \<Rightarrow> Inr (update_params k params offload)))"

definition c5_kernel :: kernel where
  "c5_kernel =
     \<lparr>kernel_name = ''hpcg'',
      categoryParams = Some [''test'' \<mapsto> ['' ''],
                             ''scaling'' \<mapsto> [''--problem_size 32'', ''--problem_size 64'']],
      update_params = base_update_params\<rparr>"

section \<open>Stats (stats.py)\<close>

text \<open>
  A performance entry is the inner dictionary \<open>{'value': .., 'units': .., 'rollup': ..}\<close>;
  the type makes \<open>value\<close> and \<open>units\<close> present, as \<open>Stats.__init__\<close> checks, and
  \<open>rollup\<close> optional. The value is kept as what \<open>float()\<close> makes of it: a number, read
  as an exact real (rounding, infinities and NaN are left out), or something \<open>float()\<close>
  rejects with ValueError. The outer dictionary is a list of pairs with distinct tags,
  in the order the dictionary iterates.
\<close>

datatype perf_value = Numeric real | NonNumeric string

record perf_entry =
  pe_value :: perf_value
  pe_units :: string
  pe_rollup :: "bool option"

record stats =
  stats_params :: params
  stats_desc :: string
  stats_perf :: "(string \<times> perf_entry) list"

definition py_float :: "perf_value \<Rightarrow> error + real" where
  "py_float v = (case v of Numeric x \<Rightarrow> Inr x | NonNumeric s \<Rightarrow> Inl ValueError)"

text \<open>\<open>s.find(sub) != -1\<close>.\<close>

fun contains :: "string \<Rightarrow> string \<Rightarrow> bool" where
  "contains [] sub = (sub = [])"
| "contains (c # cs) sub = (startswith (c # cs) sub \<or> contains cs sub)"

text \<open>\<open>self.perf[tag].get('rollup', True)\<close>.\<close>

definition rolled_up :: "perf_entry \<Rightarrow> bool" where
  "rolled_up e = (pe_rollup e \<noteq> Some False)"

text \<open>
  The loop of \<open>Stats.__sub__\<close> with \<open>rolledUp\<close> at its default, which is what the
  operator \<open>-\<close> uses: the list is the rest of \<open>self.perf\<close>, the map is \<open>ref.perf\<close>.
\<close>

fun sub_loop ::
  "(string \<times> perf_entry) list \<Rightarrow> (string \<rightharpoonup> perf_entry) \<Rightarrow> real option \<Rightarrow> error + real option"
  where
  "sub_loop [] ref result = Inr result"
| "sub_loop ((tag, e) # rest) ref result =
     (if rolled_up e then
        (let sign = (if contains tag ''Time'' then - 1 else 1) in
         case py_float (pe_value e) of
           Inl err \<Rightarrow> Inl err
         | Inr a \<Rightarrow>
             (case ref tag of
                None \<Rightarrow> Inl (KeyError tag)
              | Some re \<Rightarrow>
                  (case py_float (pe_value re) of
                     Inl err \<Rightarrow> Inl err
                   | Inr b \<Rightarrow>
                       if b = 0 then Inl ZeroDivisionError
                       else
                         (let relError = sign * (a - b) / b in
                          sub_loop rest ref
                            (if result = None \<or> relError < the result
                             then Some relError else result)))))
      else sub_loop rest ref result)"

definition Stats_sub :: "stats \<Rightarrow> stats \<Rightarrow> error + real option" where
  "Stats_sub self ref = sub_loop (stats_perf self) (map_of (stats_perf ref)) None"





definition no_params :: params where
  "no_params = \<lparr>paramNames = [], pvalues = (\<lambda>_. None), defaults = Map.empty, paramQuiet = []\<rparr>"

definition one_metric :: "string \<Rightarrow> real \<Rightarrow> string \<Rightarrow> stats" where
  "one_metric tag x units =
     \<lparr>stats_params = no_params, stats_desc = ''run'',
      stats_perf = [(tag, \<lparr>pe_value = Numeric x, pe_units = units, pe_rollup = Some True\<rparr>)]\<rparr>"

section \<open>Relative-error regression test (stats.py)\<close>

text \<open>
  What the test prints: one line per regression, carrying the kernel, the offload, the
  error (printed times 100, as a percentage) and the description, and the verdict lines.
\<close>

datatype print_line =
    RegressionLine string string real string
  | WorstRegression real
  | BestImprovement real
  | WithinMargin
  | FailedLine
  | PassedLine

text \<open>
  \<open>[(actual, expected) for (actual, expected) in zip(selfStatList, refStatList)
     if actual is not None and expected is not None]\<close>
\<close>

definition valid_pairs :: "stats option list \<Rightarrow> stats option list \<Rightarrow> (stats \<times> stats) list" where
  "valid_pairs selfStatList refStatList =
     concat (map (\<lambda>ae. case ae of (Some a, Some e) \<Rightarrow> [(a, e)] | _ \<Rightarrow> [])
               (zip selfStatList refStatList))"

text \<open>
  The inner loop of \<open>_relative_error_test\<close> for one shared key. A \<open>None\<close> difference (no
  rolled-up metric) compares below every number in Python 2, so the first branch is
  taken and negating it for the report raises TypeError.
\<close>

fun pairs_loop ::
  "real \<Rightarrow> string \<Rightarrow> string \<Rightarrow> (stats \<times> stats) list \<Rightarrow> real
     \<Rightarrow> print_line list \<times> (error + real)" where
  "pairs_loop margin kk oo [] maxRegr = ([], Inr maxRegr)"
| "pairs_loop margin kk oo ((actual, expected) # rest) maxRegr =
     (case Stats_sub actual expected of
        Inl e \<Rightarrow> ([], Inl e)
      | Inr None \<Rightarrow> ([], Inl TypeError)
      | Inr (Some relError) \<Rightarrow>
          if relError < - margin then
            (case pairs_loop margin kk oo rest (if relError < maxRegr then relError else maxRegr) of
               (out, res) \<Rightarrow> (RegressionLine kk oo (- relError) (stats_desc actual) # out, res))
          else if relError > margin \<and> relError > maxRegr \<and> maxRegr \<ge> 0 then
            pairs_loop margin kk oo rest relError
          else pairs_loop margin kk oo rest maxRegr)"

text \<open>
  The outer loop over \<open>sharedKeys\<close>. Each element carries the key and the two lists
  \<open>_get_kernel_perf_results\<close> returns for it.
\<close>

fun keys_loop ::
  "real \<Rightarrow> ((string \<times> string) \<times> stats option list \<times> stats option list) list \<Rightarrow> real
     \<Rightarrow> print_line list \<times> (error + real)" where
  "keys_loop margin [] maxRegr = ([], Inr maxRegr)"
| "keys_loop margin (((kk, oo), selfStatList, refStatList) # rest) maxRegr =
     (case pairs_loop margin kk oo (valid_pairs selfStatList refStatList) maxRegr of
        (out, Inl e) \<Rightarrow> (out, Inl e)
      | (out, Inr m) \<Rightarrow>
          (case keys_loop margin rest m of (out2, res) \<Rightarrow> (out @ out2, res)))"

definition print_perf_test_verdict :: "bool \<Rightarrow> real \<Rightarrow> print_line list \<times> (error + unit)" where
  "print_perf_test_verdict test_failed max_regression =
     (if test_failed then
        ([WorstRegression (- max_regression * 100), FailedLine], Inl PerfRegressionError)
      else if max_regression \<noteq> 0 then
        ([BestImprovement (max_regression * 100), PassedLine], Inr ())
      else ([WithinMargin, PassedLine], Inr ()))"

definition relative_error_test ::
  "real \<Rightarrow> ((string \<times> string) \<times> stats option list \<times> stats option list) list
     \<Rightarrow> print_line list \<times> (error + unit)" where
  "relative_error_test margin results =
     (case keys_loop margin results 0 of
        (out, Inl e) \<Rightarrow> (out, Inl e)
      | (out, Inr maxRegr) \<Rightarrow>
          (case print_perf_test_verdict (maxRegr < - margin) maxRegr of
             (out2, res) \<Rightarrow> (out @ out2, res)))"

text \<open>
  The claim's words: the pairs the test compares, when a pair is a regression, and the
  regression lines to be reported.
\<close>

definition compared_pairs ::
  "((string \<times> string) \<times> stats option list \<times> stats option list) list \<Rightarrow> (stats \<times> stats) list"
  where
  "compared_pairs results = concat (map (\<lambda>(k, sl, rl). valid_pairs sl rl) results)"

definition is_regression :: "real \<Rightarrow> stats \<times> stats \<Rightarrow> bool" where
  "is_regression margin ae =
     (case Stats_sub (fst ae) (snd ae) of Inr (Some x) \<Rightarrow> x < - margin | _ \<Rightarrow> False)"

definition regression_lines :: "real \<Rightarrow> string \<Rightarrow> string \<Rightarrow> (stats \<times> stats) list \<Rightarrow> print_line list"
  where
  "regression_lines margin kk oo ps =
     concat (map (\<lambda>ae. case Stats_sub (fst ae) (snd ae) of
                          Inr (Some x) \<Rightarrow>
                            if x < - margin
                            then [RegressionLine kk oo (- x) (stats_desc (fst ae))] else []
                        | _ \<Rightarrow> []) ps)"

definition c3_results ::
  "real \<Rightarrow> ((string \<times> string) \<times> stats option list \<times> stats option list) list" where
  "c3_results actual =
     [((''dgemm'', ''local''),
       [Some (one_metric ''Computation.Avg'' actual ''GFlops'')],
       [Some (one_metric ''Computation.Avg'' 100 ''GFlops'')])]"

definition reported_regressions ::
  "real \<Rightarrow> ((string \<times> string) \<times> stats option list \<times> stats option list) list \<Rightarrow> print_line list"
  where
  "reported_regressions margin results =
     concat (map (\<lambda>(k, sl, rl). regression_lines margin (fst k) (snd k) (valid_pairs sl rl)) results)"

definition is_verdict_line :: "print_line \<Rightarrow> bool" where
  "is_verdict_line l = (case l of RegressionLine k off x d \<Rightarrow> False | _ \<Rightarrow> True)"

section \<open>StatsCollection.extend (stats.py)\<close>




text \<open>\<open>d[k] = v\<close> and \<open>d.pop(k)\<close> on such a list.\<close>

fun dict_set :: "('k \<times> 'v) list \<Rightarrow> 'k \<Rightarrow> 'v \<Rightarrow> ('k \<times> 'v) list" where
  "dict_set [] k v = [(k, v)]"
| "dict_set ((k', v') # kvs) k v =
     (if k' = k then (k, v) # kvs else (k', v') # dict_set kvs k v)"























section \<open>Connections (connect.py)\<close>

text \<open>
  \<open>Offload.run\<close> acts on the machine: it asks for host names, reads files, copies files
  and starts processes. The model makes the machine an argument, a record of the answers
  it gives, and makes what \<open>run\<close> does to it a result, the list of events in order.
  Printing is left out.
\<close>

datatype side = OnHost | OnDevice

datatype address = Resolved string | DefaultAddress int | HostName string

datatype event =
    ConnectProbe address
  | PathExec side string
  | CopyTo "string list" string
  | ParamFile string
  | RmTree string
  | Popen side "string list" "(string \<times> string option) list"
  | StdOutSeparator string
  | StdOutWrite string
  | Kill side
  | Unlink string
  | RemoteRm "string list"

text \<open>
  What \<open>_get_offload_index_from_sysfs\<close> meets: \<open>os.listdir\<close> failing with OSError (not
  caught), a serial number file that cannot be read, the probe command failing to start
  with OSError (not caught), or the probe run, giving the index of the card whose serial
  number its output holds, if any. \<open>_get_offload_index_from_xmlconfig\<close> reads files
  only: it fails, or returns the index of the matching file, or \<open>None\<close>.
\<close>

datatype sysfs_outcome = ListdirOSError | SerialIOError | ProbeOSError | Probed "int option"

datatype xml_outcome = XmlError | XmlIndex "int option"

record proc_result =
  returncode :: int
  proc_out :: string
  proc_err :: string

datatype launch_outcome = Launched proc_result | PermissionDenied | LaunchOSError

text \<open>
  The machine: the platform, what name resolution answers, whether the configured ssh
  key file is missing, what the two index lookups meet, whether \<open>mpirun\<close> is on the
  path, which paths exist, the exit code of a copy that fails, what starting a command
  on a side gives (the process is followed to its end, so its exit code and output are
  part of the answer), which files cannot be removed, the two questions asked of the
  platform when the environment is built, whether writing the separator and writing the
  output to the sink fail, and the index a remote connection reports.
\<close>

record world =
  platform_windows :: bool
  gethostbyname :: "string \<Rightarrow> string option"
  ssl_key_missing :: bool
  sysfs :: "address \<Rightarrow> sysfs_outcome"
  xmlconfig :: "address \<Rightarrow> xml_outcome"
  mpirun_found :: bool
  path_exists :: "string \<Rightarrow> bool"
  copy_fails :: "string list \<Rightarrow> string \<Rightarrow> int option"
  run_process :: "side \<Rightarrow> string list \<Rightarrow> launch_outcome"
  unlink_fails :: "string \<Rightarrow> bool"
  selfboot_platform :: bool
  sub_numa_cluster_mode :: bool
  separator_write_fails :: bool
  stdout_write_fails :: bool
  offload_index_of :: "address \<Rightarrow> event list \<times> (error + int)"











section \<open>Offload.run (offload.py)\<close>

text \<open>
  The methods of a kernel that \<open>run\<close> calls, as fields next to those of
  \<open>category_params\<close>. A method that only returns a value is the value; a method whose
  answer depends on its argument is a function, with the exception it may raise where
  kernels of the package raise one. \<open>parse_desc\<close> and \<open>parse_perf\<close>
  return one value for an ordinary kernel and a list for a kernel that scales
  internally: the list-valued pair is \<open>parse_descs\<close> and \<open>parse_perfs\<close>.
\<close>

type_synonym env = "(string \<times> string option) list"

record run_kernel = kernel +
  is_mpi_required :: bool
  path_host_exec :: "string \<Rightarrow> error + string option"
  path_dev_exec :: "string \<Rightarrow> error + string option"
  path_aux_data :: "string \<Rightarrow> string list"
  param_type :: string
  param_file :: "params \<Rightarrow> error + string"
  environment_host :: env
  environment_dev :: env
  param_for_env :: "string list"
  get_process_modifiers :: "string list"
  get_fixed_args :: "string list"
  requires_root_access :: bool
  device_param_name :: string
  internal_scaling :: bool
  parse_desc :: "string \<Rightarrow> error + string"
  parse_perf :: "string \<Rightarrow> error + (string \<times> perf_entry) list"
  parse_descs :: "string \<Rightarrow> error + string list"
  parse_perfs :: "string \<Rightarrow> error + (string \<times> perf_entry) list list"

record offload =
  off_name :: string
  runDev :: bool
  runHost :: bool

definition CARD_EXECUTION_DIR :: string where
  "CARD_EXECUTION_DIR = ''/tmp/''"

definition DEP_REDIST :: string where
  "DEP_REDIST = ''redist''"



text \<open>\<open>os.path.basename\<close> and \<open>os.path.dirname\<close> on POSIX paths.\<close>

definition basename :: "string \<Rightarrow> string" where
  "basename p = rev (takeWhile (\<lambda>c. c \<noteq> CHR ''/'') (rev p))"

definition dirname :: "string \<Rightarrow> string" where
  "dirname p =
     (let head = rev (dropWhile (\<lambda>c. c \<noteq> CHR ''/'') (rev p))
      in if head \<noteq> [] \<and> (\<exists>c \<in> set head. c \<noteq> CHR ''/'')
         then rev (dropWhile (\<lambda>c. c = CHR ''/'') (rev head)) else head)"











text \<open>
  The variable \<open>devParamFile\<close> holds a list, except between lines 185 and 194, where it
  holds the name of the file.
\<close>

datatype file_var = FileList "string list" | FileName string

text \<open>
  \<open>kernel.clean_up(local_files, remote_files, remote_shell)\<close> with a remote shell:
  \<open>os.unlink\<close> raises OSError on a file it cannot remove, and \<open>['rm', '-f'] + remote_files\<close>
  raises TypeError on a string.
\<close>

fun unlink_all :: "world \<Rightarrow> string list \<Rightarrow> event list \<times> (error + unit)" where
  "unlink_all w [] = ([], Inr ())"
| "unlink_all w (f # fs) =
     (if unlink_fails w f then ([], Inl OSError)
      else (case unlink_all w fs of (evs, r) \<Rightarrow> (Unlink f # evs, r)))"

definition clean_up :: "world \<Rightarrow> string list \<Rightarrow> file_var \<Rightarrow> event list \<times> (error + unit)" where
  "clean_up w local_files remote_files =
     (case unlink_all w local_files of
        (evs, Inl e) \<Rightarrow> (evs, Inl e)
      | (evs, Inr u) \<Rightarrow>
          (case remote_files of
             FileList fs \<Rightarrow> (evs @ (if fs = [] then [] else [RemoteRm fs]), Inr ())
           | FileName f \<Rightarrow> if f = [] then (evs, Inr ()) else (evs, Inl TypeError)))"

text \<open>
  \<open>try: body finally: cleanup\<close>: the events of both, and the error of the cleanup if it
  raises, else the outcome of the body.
\<close>

definition try_finally ::
  "event list \<times> (error + 'a) \<Rightarrow> event list \<times> (error + unit) \<Rightarrow> event list \<times> (error + 'a)" where
  "try_finally body cleanup =
     (fst body @ fst cleanup, case snd cleanup of Inl e \<Rightarrow> Inl e | Inr u \<Rightarrow> snd body)"

text \<open>
  \<open>_run_workload\<close>: the process starts, or OSError with \<open>Permission denied\<close> becomes
  NoExecutionPermission naming \<open>args[0]\<close>, or another OSError goes on. \<open>args[0]\<close> is the
  first word of a list and the first character of a string.
\<close>

definition run_workload ::
  "world \<Rightarrow> side \<Rightarrow> string list \<Rightarrow> env \<Rightarrow> string \<Rightarrow> string
     \<Rightarrow> event list \<times> (error + proc_result)" where
  "run_workload w sd args e arg0 device =
     (case run_process w sd args of
        Launched p \<Rightarrow> ([Popen sd args e], Inr p)
      | PermissionDenied \<Rightarrow> ([], Inl (NoExecutionPermission arg0 device))
      | LaunchOSError \<Rightarrow> ([], Inl OSError))"

text \<open>Lines 205 to 210 and 235 to 250: the environment variables taken from parameters.\<close>

definition thread_param :: "string \<Rightarrow> bool" where
  "thread_param pn = (pn = ''omp_num_threads'' \<or> pn = ''hpl_numthreads'')"

definition upper_thread_param :: "string \<Rightarrow> string" where
  "upper_thread_param pn =
     (if pn = ''omp_num_threads'' then ''OMP_NUM_THREADS'' else ''HPL_NUMTHREADS'')"

definition py_str :: "string option \<Rightarrow> string" where
  "py_str v = (case v of None \<Rightarrow> ''None'' | Some s \<Rightarrow> s)"

fun dev_env :: "params \<Rightarrow> string list \<Rightarrow> env \<Rightarrow> error + env" where
  "dev_env devParam [] e = Inr e"
| "dev_env devParam (pn # pns) e =
     (case get_named devParam pn of
        Inl err \<Rightarrow> Inl err
      | Inr v \<Rightarrow>
          dev_env devParam pns
            (dict_set e (if thread_param pn then upper_thread_param pn else pn) v))"

fun host_env :: "world \<Rightarrow> params \<Rightarrow> string list \<Rightarrow> env \<Rightarrow> error + env" where
  "host_env w hostParam [] e = Inr e"
| "host_env w hostParam (pn # pns) e =
     (case get_named hostParam pn of
        Inl err \<Rightarrow> Inl err
      | Inr v \<Rightarrow>
          host_env w hostParam pns
            (if thread_param pn then
               (if selfboot_platform w then
                  (if sub_numa_cluster_mode w
                   then dict_set e ''KMP_HW_SUBSET'' (Some (py_str v @ ''c,1t''))
                   else dict_set e (upper_thread_param pn) v)
                else dict_set (dict_set e ''MIC_ENV_PREFIX'' (Some ''MIC''))
                       (''MIC_'' @ upper_thread_param pn) v)
             else dict_set e pn v))"

text \<open>
  Lines 176 to 211: the device side of one execution. The result is the error or the
  command line with the finished process, and what \<open>devParamFile\<close> then holds.
\<close>

definition device_arguments ::
  "world \<Rightarrow> 'a run_kernel_scheme \<Rightarrow> params \<Rightarrow> file_var
     \<Rightarrow> event list \<times> (error + string) \<times> file_var" where
  "device_arguments w k devParam dpf =
     (if param_type k = ''value'' then ([], Inr (value_str devParam), dpf)
      else if param_type k = ''flag'' then
        (case flag_str devParam of
           Inl e \<Rightarrow> ([], Inl e, dpf)
         | Inr s \<Rightarrow> ([], Inr s, dpf))
      else if param_type k = ''pos'' then ([], Inr (pos_str devParam), dpf)
      else if param_type k = ''file'' then
        (case param_file k devParam of
           Inl e \<Rightarrow> ([], Inl e, dpf)
         | Inr devParamFileOnHost \<Rightarrow>
             (let devParamFile = CARD_EXECUTION_DIR @ basename devParamFileOnHost
              in case copy_fails w [devParamFileOnHost] devParamFile of
                   Some rc \<Rightarrow>
                     ([ParamFile devParamFileOnHost, CopyTo [devParamFileOnHost] devParamFile],
                      Inl (SubprocessCalledProcessError rc), FileName devParamFile)
                 | None \<Rightarrow>
                     ([ParamFile devParamFileOnHost, CopyTo [devParamFileOnHost] devParamFile,
                       RmTree (dirname devParamFileOnHost)],
                      Inr (if kernel_name k \<noteq> ''hplinpack'' then devParamFile else ''''),
                      FileList [devParamFile])))
      else if param_type k = ''getopt'' then ([], Inr (params_str devParam), dpf)
      else ([], Inl (UnknownParameterTypeNameError (param_type k)), dpf))"

definition launch_device ::
  "world \<Rightarrow> 'a run_kernel_scheme \<Rightarrow> string \<Rightarrow> params \<Rightarrow> file_var
     \<Rightarrow> event list \<times> (error + string \<times> proc_result) \<times> file_var" where
  "launch_device w k execPath devParam dpf =
     (case device_arguments w k devParam dpf of
        (evs, Inl e, dpf') \<Rightarrow> (evs, Inl e, dpf')
      | (evs, Inr args, dpf') \<Rightarrow>
          (let devArgs = ''cd '' @ CARD_EXECUTION_DIR @ '' && '' @ CARD_EXECUTION_DIR
                 @ basename execPath @ '' '' @ args
           in case dev_env devParam (param_for_env k) (environment_dev k) of
                Inl e \<Rightarrow> (evs, Inl e, dpf')
              | Inr devProcEnv \<Rightarrow>
                  (case run_workload w OnDevice [devArgs] devProcEnv [hd devArgs]
                          ''Xeon Phi Coprocessor'' of
                     (evs', Inl e) \<Rightarrow> (evs @ evs', Inl e, dpf')
                   | (evs', Inr p) \<Rightarrow> (evs @ evs', Inr (devArgs, p), dpf'))))"

text \<open>
  Lines 213 to 259: the host side. The event of the process holds the environment the
  kernel and the parameters configure; the process inherits the rest from \<open>os.environ\<close>.
\<close>

definition host_arguments ::
  "'a run_kernel_scheme \<Rightarrow> params \<Rightarrow> string list
     \<Rightarrow> event list \<times> (error + string list) \<times> string list" where
  "host_arguments k hostParam hpf =
     (if param_type k = ''value'' then ([], Inr (value_list hostParam), hpf)
      else if param_type k = ''flag'' then
        (case flag_list hostParam of
           Inl e \<Rightarrow> ([], Inl e, hpf)
         | Inr l \<Rightarrow> ([], Inr l, hpf))
      else if param_type k = ''pos'' then ([], Inr (pos_list hostParam), hpf)
      else if param_type k = ''file'' then
        (case param_file k hostParam of
           Inl e \<Rightarrow> ([], Inl e, hpf)
         | Inr hostParamFile \<Rightarrow>
             ([ParamFile hostParamFile],
              Inr (if kernel_name k \<noteq> ''hplinpack'' then [hostParamFile] else []),
              [hostParamFile]))
      else if param_type k = ''getopt'' then ([], Inr (py_split (params_str hostParam)), hpf)
      else ([], Inl (UnknownParameterTypeNameError (param_type k)), hpf))"

definition launch_host ::
  "world \<Rightarrow> 'a run_kernel_scheme \<Rightarrow> string \<Rightarrow> params \<Rightarrow> string list
     \<Rightarrow> event list \<times> (error + string list \<times> proc_result) \<times> string list" where
  "launch_host w k execPath hostParam hpf =
     (case host_arguments k hostParam hpf of
        (evs, Inl e, hpf') \<Rightarrow> (evs, Inl e, hpf')
      | (evs, Inr args, hpf') \<Rightarrow>
          (case host_env w hostParam (param_for_env k) (environment_host k) of
             Inl e \<Rightarrow> (evs, Inl e, hpf')
           | Inr confProcEnv \<Rightarrow>
               (let hostArgs0 = get_process_modifiers k @ (execPath # args) @ get_fixed_args k;
                    hostArgs = (if requires_root_access k then ''sudo'' # hostArgs0 else hostArgs0)
                in case run_workload w OnHost hostArgs confProcEnv (hd hostArgs) ''host'' of
                     (evs', Inl e) \<Rightarrow> (evs @ evs', Inl e, hpf')
                   | (evs', Inr p) \<Rightarrow> (evs @ evs', Inr (hostArgs, p), hpf'))))"

text \<open>
  Lines 261 to 300, the body of the inner \<open>try\<close>: the processes are awaited, the device
  first, and their exit codes classified. \<open>dev\<close> and \<open>host\<close> are the command and the
  finished process of a side that runs, \<open>kernelStdOut\<close> tells whether a sink for the
  output was given. Writing the separator to the sink is outside the handler of line 284,
  so its failure leaves the block. The value is the block of output to parse.
\<close>

definition await ::
  "world \<Rightarrow> 'a run_kernel_scheme \<Rightarrow> bool \<Rightarrow> (string \<times> proc_result) option
     \<Rightarrow> (string list \<times> proc_result) option \<Rightarrow> event list \<times> (error + string)" where
  "await w k kernelStdOut dev host =
     (case (case dev of
              None \<Rightarrow> Inr []
            | Some (devArgs, devProc) \<Rightarrow>
                if returncode devProc \<noteq> 0
                then Inl (CalledProcessError (returncode devProc) devArgs)
                else Inr [proc_out devProc, proc_err devProc]) of
        Inl e \<Rightarrow> ([], Inl e)
      | Inr block \<Rightarrow>
          (case host of
             None \<Rightarrow> ([], Inr (py_join [CHR 0x0A] block))
           | Some (hostArgs, hostProc) \<Rightarrow>
               if kernelStdOut \<and> separator_write_fails w then ([], Inl IOError)
               else
                 (let evs = (if kernelStdOut then
                               StdOutSeparator (kernel_name k) #
                               (if stdout_write_fails w then []
                                else [StdOutWrite ([CHR 0x0A] @ proc_out hostProc @ [CHR 0x0A])])
                             else [])
                  in if returncode hostProc = 127
                     then (evs, Inl (MissingDependenciesError DEP_REDIST))
                     else if returncode hostProc \<noteq> 0
                     then (evs, Inl (CalledProcessError (returncode hostProc)
                                       (py_join '' '' hostArgs)))
                     else (evs, Inr (py_join [CHR 0x0A]
                                       (block @ [proc_out hostProc, proc_err hostProc]))))))"

text \<open>
  Lines 301 to 312, the inner \<open>finally\<close>. A process has no exit code only when it was
  not awaited: the host process, when the device process failed.
\<close>

definition host_awaited :: "(string \<times> proc_result) option \<Rightarrow> bool" where
  "host_awaited dev =
     (case dev of None \<Rightarrow> True | Some (devArgs, devProc) \<Rightarrow> returncode devProc = 0)"

definition after_await ::
  "world \<Rightarrow> (string \<times> proc_result) option \<Rightarrow> (string list \<times> proc_result) option
     \<Rightarrow> string list \<Rightarrow> file_var \<Rightarrow> event list \<times> (error + unit)" where
  "after_await w dev host hpf dpf =
     (case clean_up w hpf dpf of
        (evs, r) \<Rightarrow> ((if host \<noteq> None \<and> \<not> host_awaited dev then [Kill OnHost] else []) @ evs, r))"

text \<open>Lines 314 to 326: the output becomes Stats objects.\<close>

definition collect :: "'a run_kernel_scheme \<Rightarrow> params \<Rightarrow> string \<Rightarrow> error + stats list" where
  "collect k hostParam block =
     (if internal_scaling k then
        (case parse_descs k block of
           Inl e \<Rightarrow> Inl e
         | Inr descs \<Rightarrow>
             (case parse_perfs k block of
                Inl e \<Rightarrow> Inl e
              | Inr perfs \<Rightarrow>
                  Inr (map (\<lambda>(desc, perf).
                              \<lparr>stats_params = hostParam, stats_desc = desc, stats_perf = perf\<rparr>)
                         (zip descs perfs))))
      else
        (case parse_desc k block of
           Inl e \<Rightarrow> Inl e
         | Inr desc \<Rightarrow>
             (case parse_perf k block of
                Inl e \<Rightarrow> Inl e
              | Inr perf \<Rightarrow>
                  Inr [\<lparr>stats_params = hostParam, stats_desc = desc, stats_perf = perf\<rparr>])))"

text \<open>
  One pass of the loop of line 164. The result is the error or the Stats of this pass,
  and what \<open>hostParamFile\<close> and \<open>devParamFile\<close> hold afterwards.
\<close>

definition iteration ::
  "world \<Rightarrow> 'a run_kernel_scheme \<Rightarrow> offload \<Rightarrow> bool \<Rightarrow> string \<Rightarrow> params \<Rightarrow> params
     \<Rightarrow> string list \<Rightarrow> file_var
     \<Rightarrow> event list \<times> (error + stats list) \<times> string list \<times> file_var" where
  "iteration w k off kernelStdOut execPath hostParam devParam hpf dpf =
     (case (if runDev off
            then (case launch_device w k execPath devParam dpf of
                    (evs, Inl e, d) \<Rightarrow> (evs, Inl e, d)
                  | (evs, Inr p, d) \<Rightarrow> (evs, Inr (Some p), d))
            else ([], Inr None, dpf)) of
        (ev1, Inl e, dpf1) \<Rightarrow> (ev1, Inl e, hpf, dpf1)
      | (ev1, Inr dev, dpf1) \<Rightarrow>
          (case (if runHost off
                 then (case launch_host w k execPath hostParam hpf of
                         (evs, Inl e, h) \<Rightarrow> (evs, Inl e, h)
                       | (evs, Inr p, h) \<Rightarrow> (evs, Inr (Some p), h))
                 else ([], Inr None, hpf)) of
             (ev2, Inl e, hpf1) \<Rightarrow> (ev1 @ ev2, Inl e, hpf1, dpf1)
           | (ev2, Inr host, hpf1) \<Rightarrow>
               (case try_finally (await w k kernelStdOut dev host)
                       (after_await w dev host hpf1 dpf1) of
                  (ev3, Inl e) \<Rightarrow> (ev1 @ ev2 @ ev3, Inl e, hpf1, dpf1)
                | (ev3, Inr block) \<Rightarrow>
                    (ev1 @ ev2 @ ev3, collect k hostParam block, hpf1, dpf1))))"





section \<open>Example runs\<close>

text \<open>
  A Linux host whose name service does not know the card and whose sysfs matches the
  probe to card 0. The arguments are whether \<open>mpirun\<close> is on the path and the exit code
  of every process started.
\<close>

definition example_world :: "bool \<Rightarrow> int \<Rightarrow> world" where
  "example_world mpirun rc =
     \<lparr>platform_windows = False,
      gethostbyname = (\<lambda>h. None),
      ssl_key_missing = False,
      sysfs = (\<lambda>a. Probed (Some 0)),
      xmlconfig = (\<lambda>a. XmlError),
      mpirun_found = mpirun,
      path_exists = (\<lambda>p. True),
      copy_fails = (\<lambda>fs d. None),
      run_process = (\<lambda>sd args. Launched \<lparr>returncode = rc, proc_out = [], proc_err = []\<rparr>),
      unlink_fails = (\<lambda>f. False),
      selfboot_platform = False,
      sub_numa_cluster_mode = False,
      separator_write_fails = False,
      stdout_write_fails = False,
      offload_index_of = (\<lambda>a. ([], Inr 0))\<rparr>"

text \<open>The hpcg kernel (kernels/hpcg.py) with its executable installed, and the local offload.\<close>

definition hpcg_kernel :: run_kernel where
  "hpcg_kernel =
     \<lparr>kernel_name = ''hpcg'',
      categoryParams = None,
      update_params = base_update_params,
      is_mpi_required = True,
      path_host_exec =
        (\<lambda>offType. if offType = ''local'' then Inr (Some ''/opt/mkl/xhpcg_avx2'') else Inr None),
      path_dev_exec = (\<lambda>offType. Inr None),
      path_aux_data = (\<lambda>offType. []),
      param_type = ''file'',
      param_file = (\<lambda>p. Inr ''/tmp/micperf_hpcg_logs_a/hpcg.dat''),
      environment_host = [],
      environment_dev = [],
      param_for_env = [],
      get_process_modifiers = [''mpirun'', ''-n'', ''4''],
      get_fixed_args = [],
      requires_root_access = False,
      device_param_name = ''device'',
      internal_scaling = False,
      parse_desc = (\<lambda>raw. Inr ''hpcg''),
      parse_perf = (\<lambda>raw. Inr []),
      parse_descs = (\<lambda>raw. Inr []),
      parse_perfs = (\<lambda>raw. Inr [])\<rparr>"

definition LocalOffload :: offload where
  "LocalOffload = \<lparr>off_name = ''local'', runDev = False, runHost = True\<rparr>"

definition hpcg_params :: params where
  "hpcg_params =
     \<lparr>paramNames = [''problem_size'', ''time'', ''omp_num_threads''],
      pvalues = (\<lambda>_. None)(''problem_size'' := Some ''32'', ''time'' := Some ''60'',
                              ''omp_num_threads'' := Some ''32''),
      defaults = Map.empty, paramQuiet = []\<rparr>"

section \<open>Verified properties\<close>

subsection \<open>Params: construction and positional view\<close>

lemma apply_defaults_at:
  "apply_defaults names dflt m n =
     (if n \<in> set names \<and> m n = None then (case dflt n of None \<Rightarrow> None | Some d \<Rightarrow> d) else m n)"
  unfolding apply_defaults_def
  by (induction names arbitrary: m) (auto split: option.splits)

lemma c4_example_reached:
  "Params_init (Toks c4_tokens) [''a'', ''b'', ''c''] Map.empty [] ''none'' = Inr c4_example"
  apply (simp add: Params_init_def c4_tokens_def c4_example_def ParamTypeValidatorFactory_def
      startswith_def validate_param_def)
  apply (rule ext)
  apply (simp add: apply_defaults_at)
  done

text \<open>
  C4, as stated, fails: \<open>Params(['--a', '5', '--c'], ['a', 'b', 'c'])\<close> leaves \<open>b\<close> at
  \<open>None\<close>, and \<open>pos_list\<close> omits it instead of emitting \<open>'1'\<close>; the \<open>'1'\<close> in the
  result stands for \<open>c\<close>, whose value is the empty string.
\<close>

theorem pos_list_None_counterexample:
  "Params_init (Toks c4_tokens) [''a'', ''b'', ''c''] Map.empty [] ''none'' = Inr c4_example
   \<and> get_named c4_example ''b'' = Inr None
   \<and> get_named c4_example ''c'' = Inr (Some [])
   \<and> pos_list c4_example = [''5'', ''1'']
   \<and> pos_list c4_example \<noteq> [''5'', ''1'', ''1'']"
  using c4_example_reached by (simp add: get_named_def pos_list_def c4_example_def)

text \<open>
  C4 (amended): \<open>pos_list\<close> walks the schema in order; a name whose value is \<open>None\<close> or
  which is quiet contributes nothing, a name whose value is the empty string contributes
  \<open>'1'\<close>, and any other name contributes its stored value. \<open>pos_str\<close> joins that list
  with single spaces.
\<close>

theorem pos_list_schema_order:
  "pos_list p =
     concat (map (\<lambda>pn. case pvalues p pn of
                          None \<Rightarrow> []
                        | Some v \<Rightarrow> if pn \<in> set (paramQuiet p) then []
                                    else if v = [] then [''1''] else [v]) (paramNames p))
   \<and> pos_str p = py_join '' '' (pos_list p)"
proof -
  have flt: "map f (filter P xs) = concat (map (\<lambda>x. if P x then [f x] else []) xs)"
    for f :: "string \<Rightarrow> string" and P xs
    by (induction xs) auto
  show ?thesis
    unfolding pos_list_def pos_str_def flt
    by (auto intro!: arg_cong[where f = concat] split: option.splits)
qed

theorem pos_list_schema_order_witness:
  "pos_list c4_example = [''5'', ''1''] \<and> pos_str c4_example = ''5 1''"
  using pos_list_schema_order [of c4_example]
  by (simp add: c4_example_def)

subsection \<open>Params: a long option followed by a dash token\<close>

text \<open>
  C10, as stated, fails: with the xGEMM validator, \<open>--M_size -1\<close> first validates the
  empty string recorded for \<open>M_size\<close>, and \<open>unsigned_int('')\<close> raises, so construction
  ends in InvalidParamTypeError before the token \<open>-1\<close> is looked at.
\<close>

theorem long_option_dash_token_counterexample:
  "Params_init (Toks c10_tokens) [''M_size''] Map.empty [] ''gemm''
     = Inl (InvalidParamTypeError ''XGEMM'' ''M_size'')
   \<and> Params_init (Toks c10_tokens) [''M_size''] Map.empty [] ''gemm''
     \<noteq> Inl (UnknownParamError (MalformedToken ''-1'' 1))"
  by (simp add: Params_init_def c10_tokens_def ParamTypeValidatorFactory_def startswith_def
      validate_param_def unsigned_int_def isdigit_def)

text \<open>
  C10 (amended): when the loop stands at \<open>--name\<close> for a declared name and the next
  token \<open>u\<close> begins with a dash, \<open>u\<close> is not consumed: the empty string is validated and
  recorded for the name, and the loop goes on at \<open>u\<close>. If \<open>u\<close> is neither a long option
  nor a single-letter short option, construction fails: with the validator's error when
  the validator rejects the empty string for that name, and with the malformed-token
  UnknownParamError (naming \<open>u\<close> and its position) otherwise, which is always the case
  without a validator.
\<close>

theorem long_option_never_takes_dash_token:
  assumes "name \<in> set names" and "name \<noteq> ''help''" and "startswith u ''-''"
  shows "parse_options v names i ((''--'' @ name) # u # rest) m =
           (case validate_param v name [] of
              Inl e \<Rightarrow> Inl e
            | Inr x \<Rightarrow>
                if startswith u ''--'' \<or> is_short_option u
                then parse_options v names (i + 1) (u # rest) (m(name := Some x))
                else Inl (UnknownParamError (MalformedToken u (i + 1))))
         \<and> (\<not> startswith u ''--'' \<and> \<not> is_short_option u \<longrightarrow>
              parse_options NoParamTypeValidator names i ((''--'' @ name) # u # rest) m =
                Inl (UnknownParamError (MalformedToken u (i + 1)))
              \<and> (\<exists>e. parse_options v names i ((''--'' @ name) # u # rest) m = Inl e))"
  using assms
  by (auto simp: startswith_def validate_param_def split: sum.splits)

theorem long_option_never_takes_dash_token_witness:
  "''M_size'' \<in> set [''M_size''] \<and> ''M_size'' \<noteq> ''help'' \<and> startswith ''-1'' ''-''
   \<and> \<not> startswith ''-1'' ''--'' \<and> \<not> is_short_option ''-1''
   \<and> parse_options NoParamTypeValidator [''M_size''] 0 c10_tokens (\<lambda>_. None) =
       Inl (UnknownParamError (MalformedToken ''-1'' 1))
   \<and> Params_init (Toks c10_tokens) [''M_size''] Map.empty [] ''none'' =
       Inl (UnknownParamError (MalformedToken ''-1'' 1))"
proof -
  have h: "''M_size'' \<in> set [''M_size'']" "''M_size'' \<noteq> ''help''" "startswith ''-1'' ''-''"
    by (simp_all add: startswith_def)
  have n: "\<not> startswith ''-1'' ''--''" "\<not> is_short_option ''-1''"
    by (simp_all add: startswith_def is_short_option_def dollar_variants_def ascii_letters_def)
  have p: "parse_options NoParamTypeValidator [''M_size''] 0 [''--M_size'', ''-1''] (\<lambda>_. None) =
       Inl (UnknownParamError (MalformedToken ''-1'' 1))"
    using long_option_never_takes_dash_token
      [OF h, of NoParamTypeValidator 0 "[]" "\<lambda>_. None", THEN conjunct2, rule_format,
       OF conjI [OF n], THEN conjunct1]
    by (simp only: append.simps One_nat_def add_0)
  have "Params_init (Toks c10_tokens) [''M_size''] Map.empty [] ''none'' =
       Inl (UnknownParamError (MalformedToken ''-1'' 1))"
    by (simp add: Params_init_def c10_tokens_def ParamTypeValidatorFactory_def startswith_def
        validate_param_def is_short_option_def dollar_variants_def ascii_letters_def)
  with h n p show ?thesis by (simp add: c10_tokens_def)
qed

subsection \<open>ParamsDrop\<close>








subsection \<open>Params: reading \<open>value_str\<close> back\<close>

lemma read_tokens_start_reset: "read_tokens LexStart q t s = read_tokens LexStart False [] s"
  by (cases s) simp_all

lemma read_tokens_word_plain:
  "shlex_plain w \<Longrightarrow> read_tokens LexWord q tok (w @ rest) = read_tokens LexWord q (tok @ w) rest"
  by (induction w arbitrary: tok) (simp_all add: shlex_plain_def)

lemma read_tokens_start_plain:
  assumes "shlex_plain w" "w \<noteq> []"
  shows "read_tokens LexStart q t (w @ rest) = read_tokens LexWord False w rest"
proof (cases w)
  case Nil with assms show ?thesis by simp
next
  case (Cons c cs)
  with assms have "shlex_plain cs" and c: "c \<notin> set shlex_whitespace" "c \<notin> set shlex_quotes" "c \<noteq> shlex_escape"
    by (simp_all add: shlex_plain_def)
  then show ?thesis using Cons read_tokens_word_plain[of cs False "[c]" rest] by simp
qed

lemma read_tokens_word_space:
  "tok \<noteq> [] \<Longrightarrow> read_tokens LexWord q tok (CHR '' '' # rest) =
     (case read_tokens LexStart False [] rest of Inl e \<Rightarrow> Inl e | Inr ts \<Rightarrow> Inr (tok # ts))"
  by (simp add: shlex_whitespace_def)

lemma read_tokens_start_space:
  "read_tokens LexStart q t (CHR '' '' # rest) = read_tokens LexStart False [] rest"
  by (simp add: shlex_whitespace_def)

lemma shlex_plain_dashes: "shlex_plain n \<Longrightarrow> shlex_plain (''--'' @ n)"
  by (simp add: shlex_plain_def shlex_whitespace_def shlex_quotes_def shlex_escape_def)

lemma read_piece_end:
  assumes "shlex_plain n" "shlex_plain v"
  shows "read_tokens LexStart False [] (''--'' @ n @ '' '' @ v) = Inr (long_tokens (n, v))"
proof -
  have "read_tokens LexStart False [] ((''--'' @ n) @ ('' '' @ v))
      = read_tokens LexWord False (''--'' @ n) ('' '' @ v)"
    by (rule read_tokens_start_plain) (use assms shlex_plain_dashes in auto)
  also have "\<dots> = (case read_tokens LexStart False [] v of Inl e \<Rightarrow> Inl e | Inr ts \<Rightarrow> Inr ((''--'' @ n) # ts))"
    using read_tokens_word_space[of "''--'' @ n" False v] by simp
  also have "read_tokens LexStart False [] v = Inr (if v = [] then [] else [v])"
  proof (cases "v = []")
    case False
    then show ?thesis
      using read_tokens_start_plain[OF assms(2) False, of False "[]" "[]"] by simp
  qed simp
  finally show ?thesis by (simp add: long_tokens_def)
qed

lemma read_piece_more:
  assumes "shlex_plain n" "shlex_plain v"
  shows "read_tokens LexStart False [] (''--'' @ n @ '' '' @ v @ '' '' @ rest) =
     (case read_tokens LexStart False [] rest of
        Inl e \<Rightarrow> Inl e | Inr ts \<Rightarrow> Inr (long_tokens (n, v) @ ts))"
proof -
  have "read_tokens LexStart False [] ((''--'' @ n) @ ('' '' @ v @ '' '' @ rest))
      = read_tokens LexWord False (''--'' @ n) ('' '' @ v @ '' '' @ rest)"
    by (rule read_tokens_start_plain) (use assms shlex_plain_dashes in auto)
  also have "\<dots> = (case read_tokens LexStart False [] (v @ '' '' @ rest) of
        Inl e \<Rightarrow> Inl e | Inr ts \<Rightarrow> Inr ((''--'' @ n) # ts))"
    using read_tokens_word_space[of "''--'' @ n" False "v @ '' '' @ rest"] by simp
  also have "read_tokens LexStart False [] (v @ '' '' @ rest) =
       (case read_tokens LexStart False [] rest of
          Inl e \<Rightarrow> Inl e | Inr ts \<Rightarrow> Inr ((if v = [] then [] else [v]) @ ts))"
  proof (cases "v = []")
    case True
    then show ?thesis using read_tokens_start_space[of False "[]" rest]
      by (simp split: sum.splits)
  next
    case False
    then show ?thesis
      using read_tokens_start_plain[OF assms(2) False, of False "[]" "'' '' @ rest"]
        read_tokens_word_space[OF False, of False rest]
      by (simp split: sum.splits)
  qed
  finally show ?thesis by (simp add: long_tokens_def split: sum.splits)
qed

lemma shlex_split_long_form:
  assumes "\<forall>nv \<in> set shown. shlex_plain (fst nv) \<and> shlex_plain (snd nv)"
  shows "shlex_split (py_join '' '' (map (\<lambda>nv. ''--'' @ fst nv @ '' '' @ snd nv) shown))
         = Inr (concat (map long_tokens shown))"
  unfolding shlex_split_def using assms
proof (induction shown rule: induct_list012)
  case 1
  then show ?case by simp
next
  case (2 x)
  then show ?case using read_piece_end[of "fst x" "snd x"] by simp
next
  case (3 x y zs)
  then show ?case
    using read_piece_more[of "fst x" "snd x"
        "py_join '' '' (map (\<lambda>nv. ''--'' @ fst nv @ '' '' @ snd nv) (y # zs))"]
    by simp
qed


lemma long_tokens_Cons:
  "concat (map long_tokens ((n, val) # xs)) =
     (''--'' @ n) # (if val = [] then [] else [val]) @ concat (map long_tokens xs)"
  by (simp add: long_tokens_def)

lemma long_tokens_starts_dash:
  "concat (map long_tokens xs) = [] \<or> startswith (hd (concat (map long_tokens xs))) ''-''"
  by (cases xs) (simp_all add: long_tokens_def startswith_def)

lemma parse_long_step_value:
  assumes "n \<in> set names" "n \<noteq> ''help''" "\<not> startswith val ''-''"
    "validate_param v n val = Inr val"
  shows "parse_options v names i ((''--'' @ n) # val # rest) m
         = parse_options v names (i + 2) rest (m(n := Some val))"
  using assms by (simp add: startswith_def)

lemma parse_long_step_flag:
  assumes "n \<in> set names" "n \<noteq> ''help''" "validate_param v n [] = Inr []"
    "rest = [] \<or> startswith (hd rest) ''-''"
  shows "parse_options v names i ((''--'' @ n) # rest) m
         = parse_options v names (i + 1) rest (m(n := Some []))"
  using assms by (cases rest) (simp_all add: startswith_def)

lemma parse_options_long_form:
  assumes "\<forall>nv \<in> set shown. fst nv \<in> set names \<and> fst nv \<noteq> ''help''
              \<and> \<not> startswith (snd nv) ''-'' \<and> validate_param v (fst nv) (snd nv) = Inr (snd nv)"
  shows "parse_options v names i (concat (map long_tokens shown)) m
         = Inr (fold (\<lambda>nv m'. m'(fst nv := Some (snd nv))) shown m)"
  using assms
proof (induction shown arbitrary: i m)
  case Nil
  then show ?case by simp
next
  case (Cons x xs)
  obtain n val where x: "x = (n, val)" by (cases x)
  from Cons.prems x have n: "n \<in> set names" "n \<noteq> ''help''" "\<not> startswith val ''-''"
      "validate_param v n val = Inr val"
    by auto
  have IH: "parse_options v names j (concat (map long_tokens xs)) m'
         = Inr (fold (\<lambda>nv m'. m'(fst nv := Some (snd nv))) xs m')" for j m'
    using Cons.prems by (intro Cons.IH) simp
  have fld: "fold (\<lambda>nv m'. m'(fst nv := Some (snd nv))) (x # xs) m
       = fold (\<lambda>nv m'. m'(fst nv := Some (snd nv))) xs (m(n := Some val))"
    unfolding x by (simp only: fold_Cons comp_apply fst_conv snd_conv)
  show ?case
  proof (cases "val = []")
    case False
    have "parse_options v names i (concat (map long_tokens (x # xs))) m
        = parse_options v names i ((''--'' @ n) # val # concat (map long_tokens xs)) m"
      unfolding x long_tokens_Cons using False by simp
    also have "\<dots> = parse_options v names (i + 2) (concat (map long_tokens xs)) (m(n := Some val))"
      by (rule parse_long_step_value[OF n])
    also have "\<dots> = Inr (fold (\<lambda>nv m'. m'(fst nv := Some (snd nv))) xs (m(n := Some val)))"
      by (rule IH)
    finally show ?thesis unfolding fld .
  next
    case True
    have "parse_options v names i (concat (map long_tokens (x # xs))) m
        = parse_options v names i ((''--'' @ n) # concat (map long_tokens xs)) m"
      unfolding x long_tokens_Cons using True by simp
    also have "\<dots> = parse_options v names (i + 1) (concat (map long_tokens xs)) (m(n := Some []))"
      using n(4) True by (intro parse_long_step_flag n long_tokens_starts_dash) simp
    also have "\<dots> = Inr (fold (\<lambda>nv m'. m'(fst nv := Some (snd nv))) xs (m(n := Some [])))"
      by (rule IH)
    finally show ?thesis unfolding fld True .
  qed
qed


lemma Params_init_Inr:
  assumes "Params_init raw names dflt quiet vname = Inr p"
  obtains V m where "ParamTypeValidatorFactory vname = Inr V"
    and "p = \<lparr>paramNames = names, pvalues = apply_defaults names dflt m,
              defaults = dflt, paramQuiet = quiet\<rparr>"
  using assms unfolding Params_init_def
  by (auto split: sum.splits raw_params.splits if_splits)

lemma fold_record_values:
  "fold (\<lambda>nv m'. m'(fst nv := Some (snd nv))) (map (\<lambda>n. (n, f n)) ns) m0
     = (\<lambda>x. if x \<in> set ns then Some (f x) else m0 x)"
  by (induction ns arbitrary: m0) (auto simp: fun_eq_iff)

text \<open>
  C7 (amended): let a \<open>Params\<close> be constructed under a schema whose names hold no
  whitespace, quote or backslash and are not \<open>help\<close>, and let every value it stores hold
  no such character either, not begin with a dash, and pass the schema's validator. Then
  constructing a second \<open>Params\<close> from its \<open>value_str()\<close> under the same schema succeeds,
  and \<open>get_named\<close> agrees on every declared name that is not quiet.
\<close>

theorem value_str_round_trip:
  assumes built: "Params_init raw names dflt quiet vname = Inr p1"
    and names_ok: "\<forall>n \<in> set names. shlex_plain n \<and> n \<noteq> ''help''"
    and vals_ok: "\<forall>n \<in> set names. \<forall>val. pvalues p1 n = Some val \<longrightarrow>
        shlex_plain val \<and> \<not> startswith val ''-''
        \<and> (\<forall>V. ParamTypeValidatorFactory vname = Inr V \<longrightarrow> validate_param V n val = Inr val)"
  shows "\<exists>p2. Params_init (Str (value_str p1)) names dflt quiet vname = Inr p2
           \<and> (\<forall>n \<in> set names. n \<notin> set quiet \<longrightarrow> get_named p2 n = get_named p1 n)"
proof -
  from built obtain V m1 where V: "ParamTypeValidatorFactory vname = Inr V"
    and p1: "p1 = \<lparr>paramNames = names, pvalues = apply_defaults names dflt m1,
              defaults = dflt, paramQuiet = quiet\<rparr>"
    by (rule Params_init_Inr)
  define E where "E = emitted_names p1"
  define shown where "shown = map (\<lambda>n. (n, the (pvalues p1 n))) E"
  have E_sub: "set E \<subseteq> set names" and E_val: "\<forall>n \<in> set E. pvalues p1 n \<noteq> None"
    unfolding E_def emitted_names_def p1 by auto
  have E_iff: "n \<in> set E \<longleftrightarrow> n \<in> set names \<and> pvalues p1 n \<noteq> None \<and> n \<notin> set quiet" for n
    unfolding E_def emitted_names_def p1 by auto
  have vs: "value_str p1 = py_join '' '' (map (\<lambda>nv. ''--'' @ fst nv @ '' '' @ snd nv) shown)"
    unfolding value_str_def shown_def E_def emitted_names_def by (simp add: comp_def)
  have plain: "\<forall>nv \<in> set shown. shlex_plain (fst nv) \<and> shlex_plain (snd nv)"
    unfolding shown_def using E_sub E_val names_ok vals_ok by fastforce
  have okv: "\<forall>nv \<in> set shown. fst nv \<in> set names \<and> fst nv \<noteq> ''help''
              \<and> \<not> startswith (snd nv) ''-'' \<and> validate_param V (fst nv) (snd nv) = Inr (snd nv)"
    unfolding shown_def using E_sub E_val names_ok vals_ok V by fastforce
  have split: "shlex_split (value_str p1) = Inr (concat (map long_tokens shown))"
    unfolding vs by (rule shlex_split_long_form[OF plain])
  define m2 where "m2 = (\<lambda>x. if x \<in> set E then Some (the (pvalues p1 x)) else None)"
  have parsed: "parse_options V names 0 (concat (map long_tokens shown)) (\<lambda>_. None) = Inr m2"
  proof -
    have "fold (\<lambda>nv m'. m'(fst nv := Some (snd nv))) shown (\<lambda>_. None) = m2"
      unfolding shown_def m2_def by (rule fold_record_values)
    then show ?thesis using parse_options_long_form[OF okv, of 0 "\<lambda>_. None"] by simp
  qed
  have mode: "(\<exists>pp \<in> set (concat (map long_tokens shown)). startswith pp ''--'' \<or> is_short_option pp)
        \<or> (concat (map long_tokens shown) = [] \<and> m2 = (\<lambda>_. None))"
  proof (cases E)
    case Nil
    then show ?thesis by (simp add: shown_def m2_def)
  next
    case (Cons e es)
    then have "''--'' @ e \<in> set (concat (map long_tokens shown))"
      by (simp add: shown_def long_tokens_def)
    moreover have "startswith (''--'' @ e) ''--''" by (simp add: startswith_def)
    ultimately show ?thesis by blast
  qed
  define p2 where "p2 = \<lparr>paramNames = names, pvalues = apply_defaults names dflt m2,
              defaults = dflt, paramQuiet = quiet\<rparr>"
  have init: "Params_init (Str (value_str p1)) names dflt quiet vname = Inr p2"
    using mode
  proof
    assume "\<exists>pp \<in> set (concat (map long_tokens shown)). startswith pp ''--'' \<or> is_short_option pp"
    then show ?thesis
      unfolding Params_init_def by (simp add: split V parsed p2_def)
  next
    assume "concat (map long_tokens shown) = [] \<and> m2 = (\<lambda>_. None)"
    then have e: "concat (map long_tokens shown) = []" and m: "m2 = (\<lambda>_. None)" by blast+
    show ?thesis
      by (simp add: Params_init_def split[unfolded e] V p2_def m)
  qed
  have same: "get_named p2 n = get_named p1 n" if n: "n \<in> set names" "n \<notin> set quiet" for n
  proof (cases "pvalues p1 n")
    case None
    then have "n \<notin> set E" using E_iff by simp
    then have "m2 n = None" by (simp add: m2_def)
    moreover from None have "(case dflt n of None \<Rightarrow> None | Some d \<Rightarrow> d) = None"
      using n(1) unfolding p1 by (simp add: apply_defaults_at split: if_splits)
    ultimately have "pvalues p2 n = None" by (simp add: p2_def apply_defaults_at)
    with None n show ?thesis by (simp add: get_named_def p2_def p1)
  next
    case (Some val)
    then have "n \<in> set E" using E_iff n by simp
    then have "m2 n = Some val" using Some by (simp add: m2_def)
    then have "pvalues p2 n = Some val" by (simp add: p2_def apply_defaults_at)
    with Some n show ?thesis by (simp add: get_named_def p2_def p1)
  qed
  from init same show ?thesis by blast
qed


text \<open>
  C7, as stated, fails. Under the xGEMM schema the default of \<open>M_size\<close> is \<open>-1\<close>:
  \<open>value_str()\<close> writes \<open>--M_size -1\<close>, which the constructor reads as \<open>M_size\<close>
  without a value, and the validator rejects the empty string. And a value with a blank,
  \<open>a b\<close>, is written unquoted, so reading it back stops at the stray token \<open>b\<close>.
\<close>

theorem value_str_round_trip_counterexample:
  "Params_init (Str ''--n_num_thread 4'') c7_names c7_defaults [] ''gemm'' = Inr c7_first
   \<and> value_str c7_first = ''--n_num_thread 4 --M_size -1''
   \<and> Params_init (Str (value_str c7_first)) c7_names c7_defaults [] ''gemm''
       = Inl (InvalidParamTypeError ''XGEMM'' ''M_size'')
   \<and> Params_init (Toks [''--x'', ''a b'']) [''x''] Map.empty [] ''none'' = Inr c7_spaced
   \<and> value_str c7_spaced = ''--x a b''
   \<and> Params_init (Str (value_str c7_spaced)) [''x''] Map.empty [] ''none''
       = Inl (UnknownParamError (MalformedToken ''b'' 2))"
proof -
  have a: "Params_init (Str ''--n_num_thread 4'') c7_names c7_defaults [] ''gemm'' = Inr c7_first"
    apply (simp add: Params_init_def shlex_split_def shlex_whitespace_def shlex_quotes_def
        shlex_escape_def ParamTypeValidatorFactory_def startswith_def c7_names_def
        validate_param_def signed_int_def signed_int_body_def dollar_variants_def isdigit_def
        ascii_digits_def c7_first_def)
    apply (rule ext)
    apply (simp add: apply_defaults_at c7_defaults_def)
    done
  have b: "value_str c7_first = ''--n_num_thread 4 --M_size -1''"
    by (simp add: value_str_def c7_first_def c7_names_def)
  have c: "Params_init (Str ''--n_num_thread 4 --M_size -1'') c7_names c7_defaults [] ''gemm''
       = Inl (InvalidParamTypeError ''XGEMM'' ''M_size'')"
    by (simp add: Params_init_def shlex_split_def shlex_whitespace_def shlex_quotes_def
        shlex_escape_def ParamTypeValidatorFactory_def startswith_def c7_names_def
        validate_param_def signed_int_def signed_int_body_def dollar_variants_def isdigit_def
        ascii_digits_def unsigned_int_def)
  have d: "Params_init (Toks [''--x'', ''a b'']) [''x''] Map.empty [] ''none'' = Inr c7_spaced"
    apply (simp add: Params_init_def ParamTypeValidatorFactory_def startswith_def
        validate_param_def c7_spaced_def)
    apply (rule ext)
    apply (simp add: apply_defaults_at)
    done
  have e: "value_str c7_spaced = ''--x a b''"
    by (simp add: value_str_def c7_spaced_def)
  have f: "Params_init (Str ''--x a b'') [''x''] Map.empty [] ''none''
       = Inl (UnknownParamError (MalformedToken ''b'' 2))"
    by (simp add: Params_init_def shlex_split_def shlex_whitespace_def shlex_quotes_def
        shlex_escape_def ParamTypeValidatorFactory_def startswith_def validate_param_def
        is_short_option_def dollar_variants_def)
  from a b c d e f show ?thesis by simp
qed

theorem value_str_round_trip_witness:
  "Params_init (Str ''--size 64 --verbose'') [''size'', ''verbose'', ''reps'']
       [''reps'' \<mapsto> Some ''3''] [] ''none'' = Inr c7_round
   \<and> value_str c7_round = ''--size 64 --verbose  --reps 3''
   \<and> (\<exists>p2. Params_init (Str (value_str c7_round)) [''size'', ''verbose'', ''reps'']
               [''reps'' \<mapsto> Some ''3''] [] ''none'' = Inr p2
         \<and> (\<forall>n \<in> set [''size'', ''verbose'', ''reps'']. n \<notin> set []
               \<longrightarrow> get_named p2 n = get_named c7_round n))"
proof -
  have built: "Params_init (Str ''--size 64 --verbose'') [''size'', ''verbose'', ''reps'']
       [''reps'' \<mapsto> Some ''3''] [] ''none'' = Inr c7_round"
    apply (simp add: Params_init_def shlex_split_def shlex_whitespace_def shlex_quotes_def
        shlex_escape_def ParamTypeValidatorFactory_def startswith_def
        validate_param_def c7_round_def)
    apply (rule ext)
    apply (simp add: apply_defaults_at)
    done
  have names_ok: "\<forall>n \<in> set [''size'', ''verbose'', ''reps'']. shlex_plain n \<and> n \<noteq> ''help''"
    by (simp add: shlex_plain_def shlex_whitespace_def shlex_quotes_def shlex_escape_def)
  have vals_ok: "\<forall>n \<in> set [''size'', ''verbose'', ''reps'']. \<forall>val. pvalues c7_round n = Some val \<longrightarrow>
        shlex_plain val \<and> \<not> startswith val ''-''
        \<and> (\<forall>V. ParamTypeValidatorFactory ''none'' = Inr V \<longrightarrow> validate_param V n val = Inr val)"
    by (auto simp: c7_round_def shlex_plain_def shlex_whitespace_def shlex_quotes_def
        shlex_escape_def startswith_def ParamTypeValidatorFactory_def validate_param_def)
  have vs: "value_str c7_round = ''--size 64 --verbose  --reps 3''"
    by (simp add: value_str_def c7_round_def)
  from value_str_round_trip [OF built names_ok vals_ok] built vs show ?thesis by blast
qed

subsection \<open>Kernel.category_params\<close>

text \<open>
  C5: for a kernel whose category map has \<open>scaling\<close> (a non-empty list, so that it has a
  last element) and no \<open>optimal\<close>, \<open>category_params('optimal')\<close> is the one-element list
  holding the last scaling string, passed through \<open>_update_params\<close>, which is the
  identity unless the kernel overrides it. A category that is absent from the map, other
  than \<open>optimal\<close> with \<open>scaling\<close> present, raises the unknown-category NameError.
\<close>

theorem category_params_optimal_falls_back:
  assumes "categoryParams k = Some cp"
  shows "(cp ''optimal'' = None \<and> cp ''scaling'' = Some sc \<and> sc \<noteq> [] \<longrightarrow>
            category_params k ''optimal'' off = Inr (update_params k [last sc] off)
            \<and> (update_params k = base_update_params \<longrightarrow>
                 category_params k ''optimal'' off = Inr [last sc]))
         \<and> (cp c = None \<and> \<not> (c = ''optimal'' \<and> cp ''scaling'' \<noteq> None) \<longrightarrow>
              category_params k c off = Inl (UnknownCategoryNameError c))"
  using assms
  by (auto simp: category_params_def base_update_params_def split: list.splits)

theorem category_params_optimal_falls_back_witness:
  "category_params c5_kernel ''optimal'' None = Inr [''--problem_size 64'']
   \<and> category_params c5_kernel ''scaling_core'' None
       = Inl (UnknownCategoryNameError ''scaling_core'')"
  using category_params_optimal_falls_back
    [of c5_kernel "[''test'' \<mapsto> ['' ''],
                    ''scaling'' \<mapsto> [''--problem_size 32'', ''--problem_size 64'']]"
       "[''--problem_size 32'', ''--problem_size 64'']" None "''scaling_core''"]
  by (simp add: c5_kernel_def base_update_params_def)

subsection \<open>Stats subtraction\<close>






subsection \<open>Relative-error regression test\<close>

lemma pairs_loop_spec:
  assumes "0 \<le> margin"
    and "\<forall>ae \<in> set ps. \<exists>x. Stats_sub (fst ae) (snd ae) = Inr (Some x)"
    and "m0 < - margin \<or> 0 \<le> m0"
  shows "\<exists>m1. pairs_loop margin kk oo ps m0 = (regression_lines margin kk oo ps, Inr m1)
            \<and> (m1 < - margin \<or> 0 \<le> m1)
            \<and> (m1 < - margin \<longleftrightarrow> m0 < - margin \<or> (\<exists>ae \<in> set ps. is_regression margin ae))"
  using assms(2,3)
proof (induction ps arbitrary: m0)
  case Nil
  then show ?case by (simp add: regression_lines_def)
next
  case (Cons ae ps)
  obtain a e where ae: "ae = (a, e)" by (cases ae)
  from Cons.prems(1) ae obtain x where x: "Stats_sub a e = Inr (Some x)" by auto
  have rest: "\<forall>ae \<in> set ps. \<exists>x. Stats_sub (fst ae) (snd ae) = Inr (Some x)"
    using Cons.prems(1) by simp
  define m' where "m' = (if x < - margin then (if x < m0 then x else m0)
                         else if x > margin \<and> x > m0 \<and> m0 \<ge> 0 then x else m0)"
  have inv: "m' < - margin \<or> 0 \<le> m'"
    using Cons.prems(2) assms(1) by (auto simp: m'_def)
  have m'_iff: "m' < - margin \<longleftrightarrow> m0 < - margin \<or> x < - margin"
    using Cons.prems(2) assms(1) by (auto simp: m'_def)
  from Cons.IH[OF rest inv] obtain m1 where
    m1: "pairs_loop margin kk oo ps m' = (regression_lines margin kk oo ps, Inr m1)"
      "m1 < - margin \<or> 0 \<le> m1"
      "m1 < - margin \<longleftrightarrow> m' < - margin \<or> (\<exists>ae \<in> set ps. is_regression margin ae)"
    by blast
  have step: "pairs_loop margin kk oo (ae # ps) m0 =
      (regression_lines margin kk oo (ae # ps), Inr m1)"
  proof (cases "x < - margin")
    case True
    then have "pairs_loop margin kk oo (ae # ps) m0 =
        (case pairs_loop margin kk oo ps m' of
           (out, res) \<Rightarrow> (RegressionLine kk oo (- x) (stats_desc a) # out, res))"
      using x by (simp add: ae m'_def)
    also have "\<dots> = (RegressionLine kk oo (- x) (stats_desc a) # regression_lines margin kk oo ps, Inr m1)"
      by (simp add: m1(1))
    also have "RegressionLine kk oo (- x) (stats_desc a) # regression_lines margin kk oo ps
          = regression_lines margin kk oo (ae # ps)"
      using x True by (simp add: regression_lines_def ae)
    finally show ?thesis .
  next
    case False
    then have "pairs_loop margin kk oo (ae # ps) m0 = pairs_loop margin kk oo ps m'"
      using x by (simp add: ae m'_def)
    also have "\<dots> = (regression_lines margin kk oo ps, Inr m1)" by (rule m1(1))
    also have "regression_lines margin kk oo ps = regression_lines margin kk oo (ae # ps)"
      using x False by (simp add: regression_lines_def ae)
    finally show ?thesis .
  qed
  have "is_regression margin ae \<longleftrightarrow> x < - margin"
    using x by (simp add: is_regression_def ae)
  with m1 m'_iff step show ?case by auto
qed


lemma keys_loop_spec:
  assumes "0 \<le> margin"
    and "\<forall>ae \<in> set (compared_pairs results). \<exists>x. Stats_sub (fst ae) (snd ae) = Inr (Some x)"
    and "m0 < - margin \<or> 0 \<le> m0"
  shows "\<exists>m1. keys_loop margin results m0 = (reported_regressions margin results, Inr m1)
            \<and> (m1 < - margin \<or> 0 \<le> m1)
            \<and> (m1 < - margin \<longleftrightarrow>
                 m0 < - margin \<or> (\<exists>ae \<in> set (compared_pairs results). is_regression margin ae))"
  using assms(2,3)
proof (induction results arbitrary: m0)
  case Nil
  then show ?case by (simp add: reported_regressions_def compared_pairs_def)
next
  case (Cons r rs)
  obtain kk oo sl rl where r: "r = ((kk, oo), sl, rl)" by (cases r) auto
  have here: "\<forall>ae \<in> set (valid_pairs sl rl). \<exists>x. Stats_sub (fst ae) (snd ae) = Inr (Some x)"
    and later: "\<forall>ae \<in> set (compared_pairs rs). \<exists>x. Stats_sub (fst ae) (snd ae) = Inr (Some x)"
    using Cons.prems(1) by (simp_all add: compared_pairs_def r)
  from pairs_loop_spec[OF assms(1) here Cons.prems(2), of kk oo] obtain m1 where
    m1: "pairs_loop margin kk oo (valid_pairs sl rl) m0
           = (regression_lines margin kk oo (valid_pairs sl rl), Inr m1)"
      "m1 < - margin \<or> 0 \<le> m1"
      "m1 < - margin \<longleftrightarrow> m0 < - margin \<or> (\<exists>ae \<in> set (valid_pairs sl rl). is_regression margin ae)"
    by blast
  from Cons.IH[OF later m1(2)] obtain m2 where
    m2: "keys_loop margin rs m1 = (reported_regressions margin rs, Inr m2)"
      "m2 < - margin \<or> 0 \<le> m2"
      "m2 < - margin \<longleftrightarrow> m1 < - margin \<or> (\<exists>ae \<in> set (compared_pairs rs). is_regression margin ae)"
    by blast
  have "keys_loop margin (r # rs) m0 = (reported_regressions margin (r # rs), Inr m2)"
    by (simp add: r m1(1) m2(1) reported_regressions_def)
  moreover have "set (compared_pairs (r # rs)) = set (valid_pairs sl rl) \<union> set (compared_pairs rs)"
    by (simp add: compared_pairs_def r)
  ultimately show ?case using m1(3) m2(2,3) by auto
qed

text \<open>
  C3: with a margin \<open>m \<ge> 0\<close> and compared pairs whose difference is a number, a pair is
  a regression exactly when \<open>actual - reference < -m\<close>; the test raises
  PerfRegressionError exactly when some compared pair is a regression and passes
  otherwise; the printed regression lines are those of the regressing pairs, in order,
  followed by the verdict. With the reference at 100 and margin 0.05, an actual value
  of 90 fails with a reported regression of 10%, and an actual value of 98 passes.
\<close>

theorem relative_error_test_fails_iff_regression:
  assumes "0 \<le> margin"
    and "\<forall>ae \<in> set (compared_pairs results). \<exists>x. Stats_sub (fst ae) (snd ae) = Inr (Some x)"
  shows "(\<forall>ae \<in> set (compared_pairs results). \<forall>x. Stats_sub (fst ae) (snd ae) = Inr (Some x) \<longrightarrow>
            (is_regression margin ae \<longleftrightarrow> x < - margin))
     \<and> (snd (relative_error_test margin results) = Inl PerfRegressionError
          \<longleftrightarrow> (\<exists>ae \<in> set (compared_pairs results). is_regression margin ae))
     \<and> (snd (relative_error_test margin results) = Inr ()
          \<longleftrightarrow> \<not> (\<exists>ae \<in> set (compared_pairs results). is_regression margin ae))
     \<and> (\<exists>verdict. fst (relative_error_test margin results)
                      = reported_regressions margin results @ verdict
                  \<and> (\<forall>l \<in> set verdict. is_verdict_line l))
     \<and> relative_error_test (5 / 100) (c3_results 90)
          = ([RegressionLine ''dgemm'' ''local'' (10 / 100) ''run'', WorstRegression 10, FailedLine],
             Inl PerfRegressionError)
     \<and> relative_error_test (5 / 100) (c3_results 98) = ([WithinMargin, PassedLine], Inr ())"
proof -
  from keys_loop_spec[OF assms, of 0] assms(1) obtain m1 where
    m1: "keys_loop margin results 0 = (reported_regressions margin results, Inr m1)"
      "m1 < - margin \<longleftrightarrow> (\<exists>ae \<in> set (compared_pairs results). is_regression margin ae)"
    by auto
  have res: "relative_error_test margin results =
      (reported_regressions margin results @ fst (print_perf_test_verdict (m1 < - margin) m1),
       snd (print_perf_test_verdict (m1 < - margin) m1))"
    by (simp add: relative_error_test_def m1(1) split: prod.splits)
  have v: "\<forall>l \<in> set (fst (print_perf_test_verdict b m)). is_verdict_line l" for b m
    by (simp add: print_perf_test_verdict_def is_verdict_line_def)
  have s: "snd (print_perf_test_verdict b m) = (if b then Inl PerfRegressionError else Inr ())" for b m
    by (simp add: print_perf_test_verdict_def)
  have sub90: "Stats_sub (one_metric ''Computation.Avg'' 90 ''GFlops'')
        (one_metric ''Computation.Avg'' 100 ''GFlops'') = Inr (Some (- 1 / 10))"
    by (simp add: Stats_sub_def one_metric_def rolled_up_def py_float_def startswith_def)
  have sub98: "Stats_sub (one_metric ''Computation.Avg'' 98 ''GFlops'')
        (one_metric ''Computation.Avg'' 100 ''GFlops'') = Inr (Some (- 2 / 100))"
    by (simp add: Stats_sub_def one_metric_def rolled_up_def py_float_def startswith_def)
  have sc90: "relative_error_test (5 / 100) (c3_results 90)
          = ([RegressionLine ''dgemm'' ''local'' (10 / 100) ''run'', WorstRegression 10, FailedLine],
             Inl PerfRegressionError)"
    by (simp add: relative_error_test_def c3_results_def valid_pairs_def sub90
        print_perf_test_verdict_def) (simp add: one_metric_def)
  have sc98: "relative_error_test (5 / 100) (c3_results 98) = ([WithinMargin, PassedLine], Inr ())"
    by (simp add: relative_error_test_def c3_results_def valid_pairs_def sub98
        print_perf_test_verdict_def)
  have r1: "\<forall>ae \<in> set (compared_pairs results). \<forall>x. Stats_sub (fst ae) (snd ae) = Inr (Some x) \<longrightarrow>
            (is_regression margin ae \<longleftrightarrow> x < - margin)"
    by (simp add: is_regression_def)
  show ?thesis
    unfolding res fst_conv snd_conv s
    using r1 m1(2) v sc90 sc98 by auto
qed

theorem relative_error_test_fails_iff_regression_witness:
  "(0::real) \<le> 5 / 100
   \<and> compared_pairs (c3_results 90)
       = [(one_metric ''Computation.Avg'' 90 ''GFlops'', one_metric ''Computation.Avg'' 100 ''GFlops'')]
   \<and> is_regression (5 / 100)
       (one_metric ''Computation.Avg'' 90 ''GFlops'', one_metric ''Computation.Avg'' 100 ''GFlops'')
   \<and> snd (relative_error_test (5 / 100) (c3_results 90)) = Inl PerfRegressionError"
proof -
  have sub90: "Stats_sub (one_metric ''Computation.Avg'' 90 ''GFlops'')
        (one_metric ''Computation.Avg'' 100 ''GFlops'') = Inr (Some (- 1 / 10))"
    by (simp add: Stats_sub_def one_metric_def rolled_up_def py_float_def startswith_def)
  have cp: "compared_pairs (c3_results 90)
       = [(one_metric ''Computation.Avg'' 90 ''GFlops'', one_metric ''Computation.Avg'' 100 ''GFlops'')]"
    by (simp add: compared_pairs_def c3_results_def valid_pairs_def)
  have good: "\<forall>ae \<in> set (compared_pairs (c3_results 90)).
      \<exists>x. Stats_sub (fst ae) (snd ae) = Inr (Some x)"
    by (simp add: cp sub90)
  have reg: "is_regression (5 / 100)
       (one_metric ''Computation.Avg'' 90 ''GFlops'', one_metric ''Computation.Avg'' 100 ''GFlops'')"
    by (simp add: is_regression_def sub90)
  have m: "(0::real) \<le> 5 / 100" by simp
  from relative_error_test_fails_iff_regression [OF m good] cp reg m show ?thesis by simp
qed

subsection \<open>StatsCollection.extend\<close>












subsection \<open>Offload.run: the MPI requirement\<close>
















subsection \<open>Offload.run: the exit code of the host process\<close>

lemma await_host_exit_code:
  assumes "host_awaited dev" and "kernelStdOut \<longrightarrow> \<not> separator_write_fails w"
    and "returncode hostProc \<noteq> 0"
  shows "snd (await w k kernelStdOut dev (Some (hostArgs, hostProc)))
           = Inl (if returncode hostProc = 127 then MissingDependenciesError DEP_REDIST
                  else CalledProcessError (returncode hostProc) (py_join '' '' hostArgs))"
  using assms
  by (auto simp add: await_def host_awaited_def Let_def split: option.splits prod.splits)

lemma unlink_all_ok:
  "\<forall>f \<in> set fs. \<not> unlink_fails w f \<Longrightarrow> snd (unlink_all w fs) = Inr ()"
  by (induction fs) (auto split: prod.splits)

lemma clean_up_ok:
  "\<forall>f \<in> set hpf. \<not> unlink_fails w f \<Longrightarrow> snd (clean_up w hpf (FileList fs)) = Inr ()"
  using unlink_all_ok [of hpf w]
  by (auto simp add: clean_up_def split: prod.splits sum.splits)

lemma after_await_ok:
  "\<forall>f \<in> set hpf. \<not> unlink_fails w f
   \<Longrightarrow> snd (after_await w dev host hpf (FileList fs)) = Inr ()"
  using clean_up_ok [of hpf w fs]
  by (auto simp add: after_await_def split: prod.splits)

text \<open>While the device side succeeds, \<open>devParamFile\<close> holds a list.\<close>

lemma device_arguments_keeps_list:
  "device_arguments w k devParam (FileList fs) = (evs, Inr args, dpf)
   \<Longrightarrow> \<exists>fs'. dpf = FileList fs'"
  by (auto simp add: device_arguments_def Let_def split: if_splits sum.splits option.splits)

lemma launch_device_keeps_list:
  "launch_device w k execPath devParam (FileList fs) = (evs, Inr p, dpf)
   \<Longrightarrow> \<exists>fs'. dpf = FileList fs'"
  using device_arguments_keeps_list [of w k devParam fs]
  by (auto simp add: launch_device_def Let_def split: prod.splits sum.splits)

text \<open>The command line the host side returns is the one its process was started with.\<close>

lemma launch_host_event:
  "launch_host w k execPath hostParam hpf = (evs, Inr (hostArgs, hostProc), hpf1)
   \<Longrightarrow> \<exists>e. Popen OnHost hostArgs e \<in> set evs"
  by (auto simp add: launch_host_def run_workload_def Let_def
        split: prod.splits sum.splits launch_outcome.splits if_splits)

lemma example_launch_host:
  "launch_host (example_world True rc) hpcg_kernel ''/opt/mkl/xhpcg_avx2'' hpcg_params []
     = ([ParamFile ''/tmp/micperf_hpcg_logs_a/hpcg.dat'',
         Popen OnHost [''mpirun'', ''-n'', ''4'', ''/opt/mkl/xhpcg_avx2'',
                       ''/tmp/micperf_hpcg_logs_a/hpcg.dat''] []],
        Inr ([''mpirun'', ''-n'', ''4'', ''/opt/mkl/xhpcg_avx2'',
              ''/tmp/micperf_hpcg_logs_a/hpcg.dat''],
             \<lparr>returncode = rc, proc_out = [], proc_err = []\<rparr>),
        [''/tmp/micperf_hpcg_logs_a/hpcg.dat''])"
  by (simp add: launch_host_def host_arguments_def hpcg_kernel_def run_workload_def
        example_world_def Let_def)

text \<open>
  C9: in a pass of the loop of \<open>run\<close> where the host process was started with the
  command line \<open>hostArgs\<close> and is awaited (the offload runs a host side, and the device
  process, if there is one, exited with 0), a host exit code of 127 makes the pass raise
  the missing-dependency condition for the redistributable libraries, and any other
  non-zero exit code makes it raise CalledProcessError with that exit code and
  \<open>' '.join(hostArgs)\<close>, the words of the command that was started. The exception
  leaves the pass provided the machine lets the two steps around the classification
  succeed: writing the separator to the output sink, when a sink is given, and removing
  the host parameter file in the \<open>finally\<close> block.
\<close>

theorem host_exit_code_classified:
  assumes host: "runHost off"
                "launch_host w k execPath hostParam hpf = (ev2, Inr (hostArgs, hostProc), hpf1)"
    and dev: "runDev off \<longrightarrow>
                (\<exists>ev1 devArgs devProc dpf1.
                   launch_device w k execPath devParam (FileList fs)
                     = (ev1, Inr (devArgs, devProc), dpf1)
                   \<and> returncode devProc = 0)"
    and sink: "kernelStdOut \<longrightarrow> \<not> separator_write_fails w"
    and files: "\<forall>f \<in> set hpf1. \<not> unlink_fails w f"
    and rc: "returncode hostProc \<noteq> 0"
  shows "fst (snd (iteration w k off kernelStdOut execPath hostParam devParam hpf (FileList fs)))
           = Inl (if returncode hostProc = 127 then MissingDependenciesError DEP_REDIST
                  else CalledProcessError (returncode hostProc) (py_join '' '' hostArgs))
         \<and> (\<exists>e. Popen OnHost hostArgs e
                    \<in> set (fst (iteration w k off kernelStdOut execPath hostParam devParam hpf
                                   (FileList fs))))"
proof -
  define classified where
    "classified = (if returncode hostProc = 127 then MissingDependenciesError DEP_REDIST
                   else CalledProcessError (returncode hostProc) (py_join '' '' hostArgs))"
  obtain ev1 d dpf1 where
    d: "(if runDev off
         then (case launch_device w k execPath devParam (FileList fs) of
                 (evs, Inl e, d) \<Rightarrow> (evs, Inl e, d)
               | (evs, Inr p, d) \<Rightarrow> (evs, Inr (Some p), d))
         else ([], Inr None, FileList fs)) = (ev1, Inr d, FileList dpf1)"
    and aw: "host_awaited d"
  proof (cases "runDev off")
    case True
    then obtain e1 devArgs devProc dp where
      l: "launch_device w k execPath devParam (FileList fs) = (e1, Inr (devArgs, devProc), dp)"
      and z: "returncode devProc = 0"
      using dev by blast
    from launch_device_keeps_list [OF l] obtain fs' where "dp = FileList fs'" ..
    with True l z that [of e1 "Some (devArgs, devProc)" fs'] show ?thesis
      by (simp add: host_awaited_def)
  next
    case False
    with that [of "[]" None fs] show ?thesis
      by (simp add: host_awaited_def)
  qed
  have a: "snd (await w k kernelStdOut d (Some (hostArgs, hostProc))) = Inl classified"
    unfolding classified_def by (rule await_host_exit_code [OF aw sink rc])
  have c: "snd (after_await w d (Some (hostArgs, hostProc)) hpf1 (FileList dpf1)) = Inr ()"
    by (rule after_await_ok [OF files])
  obtain ev3 where
    t: "try_finally (await w k kernelStdOut d (Some (hostArgs, hostProc)))
          (after_await w d (Some (hostArgs, hostProc)) hpf1 (FileList dpf1))
          = (ev3, Inl classified)"
    by (simp add: try_finally_def a c)
  have i: "iteration w k off kernelStdOut execPath hostParam devParam hpf (FileList fs)
             = (ev1 @ ev2 @ ev3, Inl classified, hpf1, FileList dpf1)"
    unfolding iteration_def d using host t by simp
  from launch_host_event [OF host(2)] obtain e where "Popen OnHost hostArgs e \<in> set ev2" ..
  with i show ?thesis
    unfolding classified_def by auto
qed

theorem host_exit_code_classified_witness:
  "fst (snd (iteration (example_world True 127) hpcg_kernel LocalOffload False
               ''/opt/mkl/xhpcg_avx2'' hpcg_params hpcg_params [] (FileList [])))
     = Inl (MissingDependenciesError ''redist'')
   \<and> fst (snd (iteration (example_world True 2) hpcg_kernel LocalOffload False
                   ''/opt/mkl/xhpcg_avx2'' hpcg_params hpcg_params [] (FileList [])))
       = Inl (CalledProcessError 2
                ''mpirun -n 4 /opt/mkl/xhpcg_avx2 /tmp/micperf_hpcg_logs_a/hpcg.dat'')"
  using host_exit_code_classified
          [of LocalOffload "example_world True 127" hpcg_kernel "''/opt/mkl/xhpcg_avx2''"
              hpcg_params "[]" _ _ _ _ hpcg_params "[]" False,
           OF _ example_launch_host]
        host_exit_code_classified
          [of LocalOffload "example_world True 2" hpcg_kernel "''/opt/mkl/xhpcg_avx2''"
              hpcg_params "[]" _ _ _ _ hpcg_params "[]" False,
           OF _ example_launch_host]
  by (simp add: LocalOffload_def example_world_def DEP_REDIST_def)

end
